theory Spec2Isabelle
  imports Main "HOL-Library.List_Lexorder"
begin

text \<open>
  The repository holds the server twice: \<open>src/app.js\<close>, and \<open>src/unnamed/part_000\<close>,
  which adds the dashboard route, an outer \<open>try/catch\<close> in the payment webhook and the
  \<open>USER_NOT_PARTICIPANT\<close> branch of \<open>removeUserFromGroup\<close>; it is called the file with
  the dashboard below. What is the same in both is modelled once; where they differ, the
  function of \<open>app.js\<close> carries the suffix \<open>_app\<close>.
\<close>

section \<open>Strings\<close>

text \<open>
  JavaScript strings are modelled as \<open>string\<close>; a \<open>char\<close> stands for a code unit
  below 256. \<open>String.prototype.trim\<close> strips white space and line terminators from both
  ends; in that range these are TAB, LF, VT, FF, CR, SPACE and NBSP.
\<close>

definition is_whitespace :: "char \<Rightarrow> bool" where
  "is_whitespace c = (of_char c \<in> set [9::nat, 10, 11, 12, 13, 32, 160])"

definition trim :: "string \<Rightarrow> string" where
  "trim s = rev (dropWhile is_whitespace (rev (dropWhile is_whitespace s)))"

definition startsWith :: "string \<Rightarrow> string \<Rightarrow> bool" where
  "startsWith s p = (take (length p) s = p)"

text \<open>\<open>String.prototype.includes\<close>: \<open>sub\<close> occurs in \<open>s\<close> at some position.\<close>

fun includes_str :: "string \<Rightarrow> string \<Rightarrow> bool" where
  "includes_str [] sub = (sub = [])"
| "includes_str (c # cs) sub = (startsWith (c # cs) sub \<or> includes_str cs sub)"

text \<open>
  \<open>LOWER\<close> of PostgreSQL, on the ASCII letters (what it does to other characters
  depends on the locale of the database).
\<close>

definition lower_char :: "char \<Rightarrow> char" where
  "lower_char c =
     (if 65 \<le> (of_char c :: nat) \<and> (of_char c :: nat) \<le> 90
      then char_of (of_char c + 32 :: nat) else c)"

definition lower :: "string \<Rightarrow> string" where
  "lower s = map lower_char s"

text \<open>
  Truthiness of a value that is a string, \<open>null\<close> or \<open>undefined\<close> (\<open>None\<close>): only a
  non-empty string is truthy.
\<close>

fun truthy :: "string option \<Rightarrow> bool" where
  "truthy None = False"
| "truthy (Some s) = (s \<noteq> [])"

section \<open>Data model\<close>

text \<open>
  An exception thrown by a library call: by \<open>stripe.webhooks.constructEvent\<close>, by
  \<open>JSON.parse\<close>, by the Stripe API, by \<open>pool.connect\<close>, or by PostgreSQL when it refuses
  a statement.
\<close>

datatype exn =
    SignatureVerificationError
  | SyntaxError
  | StripeAPIError
  | ConnectionError
  | UndefinedTable
  | UndefinedColumn string
  | UniqueViolation

text \<open>
  The payment event as the handler reads it: \<open>event.type\<close>, and \<open>event.data?.object\<close>
  (\<open>None\<close> when \<open>data\<close> or \<open>object\<close> is missing) with its optional fields
  \<open>customer_email\<close> and \<open>customer\<close>.
\<close>

record payload =
  customer_email :: "string option"
  customer :: "string option"

record event =
  event_type :: string
  data_object :: "payload option"

text \<open>The request to \<open>POST /webhook\<close>: the raw body and the \<open>stripe-signature\<close> header.\<close>

record request =
  body :: string
  stripe_signature :: "string option"

text \<open>The update handed to \<open>bot.on("text")\<close>: \<open>ctx.from?.id\<close> and \<open>ctx.message.text\<close>.\<close>

record ctx =
  from_id :: "int option"
  message_text :: string

text \<open>
  A value of \<open>req.query\<close>: missing, a string, or an array or object (which the query
  parser builds from \<open>token[]=x\<close>; under \<open>===\<close> it equals no string and is not
  \<open>undefined\<close>).
\<close>

datatype query_value = Absent | QString string | QOther

record dashboard_query =
  token :: query_value
  order :: query_value

datatype sort_order = ASC | DESC

text \<open>The calls to the Telegram Bot API, and their results (\<open>err.response?.description\<close>).\<close>

datatype tg_call = banChatMember string int | unbanChatMember string int

datatype tg_result = TgOk | TgError "string option"

text \<open>The statements sent to PostgreSQL.\<close>

datatype sql =
    CreateTable
  | Upsert int string
  | SelectEmail int
  | SelectTelegramId string
  | SelectAllOrderBy string sort_order

text \<open>The replies of the bot (\<open>ctx.reply\<close>), by the message they carry.\<close>

datatype reply_msg =
    CouldNotIdentifyUser
  | Guidance
  | AlreadyLinked string
  | Linked string

text \<open>The lines written to the console, by severity (\<open>console.log/warn/error\<close>).\<close>

datatype level = LOG | WARN | ERROR

datatype console_msg =
    SignatureVerificationFailed
  | StripeWebhookError
  | FailedToFetchCustomerEmail
  | NoEmailFound
  | NoTelegramIdFound string
  | AttemptingToRemove int string
  | Removing int string
  | AttemptedToRemove int
  | Removed int
  | NotInGroup int
  | FailedToRemove int
  | WebhookHandlerError
  | ErrorRenderingDashboard

fun severity :: "level \<Rightarrow> nat" where
  "severity LOG = 0"
| "severity WARN = 1"
| "severity ERROR = 2"

text \<open>Everything a handler does to the outside, in the order it does it.\<close>

datatype effect =
    Query sql
  | Telegram tg_call
  | StripeRetrieve string
  | Reply reply_msg
  | Console level console_msg

text \<open>
  The configuration (\<open>process.env\<close>) and the external services, as functions:
  \<open>constructEvent body sig secret\<close> and \<open>JSON_parse body\<close> return the event or throw,
  \<open>customers_retrieve id\<close> returns the customer's \<open>email\<close> or throws, and \<open>telegram\<close>
  answers a call given everything done so far.
\<close>

record env =
  TELEGRAM_GROUP_ID :: string
  STRIPE_WEBHOOK_SECRET :: string
  VERIFY_STRIPE_SIGNATURE :: string
  DASHBOARD_ACCESS_TOKEN :: "string option"
  constructEvent :: "string \<Rightarrow> string option \<Rightarrow> string \<Rightarrow> exn + event"
  JSON_parse :: "string \<Rightarrow> exn + event"
  customers_retrieve :: "string \<Rightarrow> exn + string option"
  telegram :: "effect list \<Rightarrow> tg_call \<Rightarrow> tg_result"

text \<open>
  The state: whether \<open>pool.connect()\<close> succeeds, the table \<open>telegram_users\<close>
  (\<open>None\<close> until it is created) as its rows \<open>(telegram_id, email)\<close> in storage order,
  and the effects so far.
\<close>

type_synonym row = "int \<times> string"

record world =
  pool_up :: bool
  telegram_users :: "row list option"
  trace :: "effect list"

definition emit :: "effect \<Rightarrow> world \<Rightarrow> world" where
  "emit e w = w\<lparr>trace := trace w @ [e]\<rparr>"

definition console :: "level \<Rightarrow> console_msg \<Rightarrow> world \<Rightarrow> world" where
  "console l m w = emit (Console l m) w"

definition reply :: "reply_msg \<Rightarrow> world \<Rightarrow> world" where
  "reply m w = emit (Reply m) w"

section \<open>Identity store\<close>

text \<open>
  \<open>initDb\<close>: \<open>CREATE TABLE IF NOT EXISTS telegram_users (telegram_id BIGINT PRIMARY KEY,
  email TEXT UNIQUE NOT NULL)\<close>.
\<close>

definition telegram_users_columns :: "string list" where
  "telegram_users_columns = [''telegram_id'', ''email'']"

definition initDb :: "world \<Rightarrow> (exn + unit) \<times> world" where
  "initDb w =
     (if \<not> pool_up w then (Inl ConnectionError, w)
      else (Inr (),
        (emit (Query CreateTable) w)
          \<lparr>telegram_users := (case telegram_users w of None \<Rightarrow> Some [] | Some rows \<Rightarrow> Some rows)\<rparr>))"

text \<open>
  \<open>INSERT ... ON CONFLICT (telegram_id) DO UPDATE SET email = EXCLUDED.email\<close> on the
  rows: the row of that \<open>telegram_id\<close> gets the new email, or a new row is added.
\<close>

fun upsert_row :: "int \<Rightarrow> string \<Rightarrow> row list \<Rightarrow> row list" where
  "upsert_row telegramId email [] = [(telegramId, email)]"
| "upsert_row telegramId email (r # rows) =
     (if fst r = telegramId then (telegramId, email) # rows
      else r # upsert_row telegramId email rows)"

text \<open>
  \<open>insertOrUpdateUser\<close>. The statement is refused with a unique violation when another
  row already holds the email (\<open>email TEXT UNIQUE\<close>).
\<close>

definition insertOrUpdateUser :: "world \<Rightarrow> int \<Rightarrow> string \<Rightarrow> (exn + bool) \<times> world" where
  "insertOrUpdateUser w telegramId email =
     (if \<not> pool_up w then (Inl ConnectionError, w)
      else
        let w' = emit (Query (Upsert telegramId email)) w in
        case telegram_users w of
          None \<Rightarrow> (Inl UndefinedTable, w')
        | Some rows \<Rightarrow>
            if list_ex (\<lambda>r. fst r \<noteq> telegramId \<and> snd r = email) rows
            then (Inl UniqueViolation, w')
            else (Inr True, w'\<lparr>telegram_users := Some (upsert_row telegramId email rows)\<rparr>))"

text \<open>\<open>getEmailByUser\<close>: \<open>res.rows[0]?.email || null\<close>; an empty email is falsy.\<close>

definition getEmailByUser :: "world \<Rightarrow> int \<Rightarrow> (exn + string option) \<times> world" where
  "getEmailByUser w telegramId =
     (if \<not> pool_up w then (Inl ConnectionError, w)
      else
        let w' = emit (Query (SelectEmail telegramId)) w in
        case telegram_users w of
          None \<Rightarrow> (Inl UndefinedTable, w')
        | Some rows \<Rightarrow>
            (case filter (\<lambda>r. fst r = telegramId) rows of
               [] \<Rightarrow> (Inr None, w')
             | r # _ \<Rightarrow> (Inr (if snd r = [] then None else Some (snd r)), w')))"

text \<open>
  \<open>getTelegramIdByEmail\<close>: \<open>res.rows[0]?.telegram_id || null\<close>. The driver returns a
  \<open>BIGINT\<close> as a string of digits, which is truthy, so a row found is an id returned.
\<close>

definition getTelegramIdByEmail :: "world \<Rightarrow> string \<Rightarrow> (exn + int option) \<times> world" where
  "getTelegramIdByEmail w email =
     (if \<not> pool_up w then (Inl ConnectionError, w)
      else
        let w' = emit (Query (SelectTelegramId email)) w in
        case telegram_users w of
          None \<Rightarrow> (Inl UndefinedTable, w')
        | Some rows \<Rightarrow>
            (case filter (\<lambda>r. lower (snd r) = lower email) rows of
               [] \<Rightarrow> (Inr None, w')
             | r # _ \<Rightarrow> (Inr (Some (fst r)), w')))"

text \<open>
  \<open>SELECT * FROM telegram_users ORDER BY col\<close>: refused when the table has no such
  column.
\<close>

definition direction :: "sort_order \<Rightarrow> row list \<Rightarrow> row list" where
  "direction ord rows = (case ord of ASC \<Rightarrow> rows | DESC \<Rightarrow> rev rows)"

definition order_by :: "string \<Rightarrow> sort_order \<Rightarrow> row list \<Rightarrow> exn + row list" where
  "order_by col ord rows =
     (if col = ''telegram_id'' then Inr (direction ord (sort_key fst rows))
      else if col = ''email''
      then Inr (direction ord (sort_key (\<lambda>r. map (of_char :: char \<Rightarrow> nat) (snd r)) rows))
      else Inl (UndefinedColumn col))"

definition select_all_order_by ::
    "world \<Rightarrow> string \<Rightarrow> sort_order \<Rightarrow> (exn + row list) \<times> world" where
  "select_all_order_by w col ord =
     (if \<not> pool_up w then (Inl ConnectionError, w)
      else
        let w' = emit (Query (SelectAllOrderBy col ord)) w in
        case telegram_users w of
          None \<Rightarrow> (Inl UndefinedTable, w')
        | Some rows \<Rightarrow> (order_by col ord rows, w'))"

section \<open>Membership enforcer\<close>

text \<open>A call to the Telegram Bot API: recorded, and answered by the environment.\<close>

definition api_call :: "env \<Rightarrow> world \<Rightarrow> tg_call \<Rightarrow> tg_result \<times> world" where
  "api_call env w c = (telegram env (trace w) c, emit (Telegram c) w)"

text \<open>
  \<open>err.response?.description?.includes("USER_NOT_PARTICIPANT")\<close>: falsy when the error
  carries no description.
\<close>

definition user_not_participant :: "string option \<Rightarrow> bool" where
  "user_not_participant d =
     (case d of None \<Rightarrow> False | Some s \<Rightarrow> includes_str s ''USER_NOT_PARTICIPANT'')"

text \<open>The \<open>catch\<close> block of \<open>removeUserFromGroup\<close> (the file with the dashboard).\<close>

definition removeUserFromGroup_catch :: "string option \<Rightarrow> int \<Rightarrow> world \<Rightarrow> world" where
  "removeUserFromGroup_catch d telegramId w =
     (if user_not_participant d then console WARN (NotInGroup telegramId) w
      else console ERROR (FailedToRemove telegramId) w)"

text \<open>
  \<open>removeUserFromGroup\<close> (the file with the dashboard): ban, then unban; the first call
  that fails goes to the \<open>catch\<close> block. It returns nothing: what it did is the trace.
\<close>

definition removeUserFromGroup :: "env \<Rightarrow> world \<Rightarrow> int \<Rightarrow> world" where
  "removeUserFromGroup env w telegramId =
     (case api_call env w (banChatMember (TELEGRAM_GROUP_ID env) telegramId) of
        (r1, w1) \<Rightarrow>
          (case r1 of
             TgError d \<Rightarrow> removeUserFromGroup_catch d telegramId w1
           | TgOk \<Rightarrow>
               (case api_call env w1 (unbanChatMember (TELEGRAM_GROUP_ID env) telegramId) of
                  (r2, w2) \<Rightarrow>
                    (case r2 of
                       TgError d \<Rightarrow> removeUserFromGroup_catch d telegramId w2
                     | TgOk \<Rightarrow> console LOG (AttemptedToRemove telegramId) w2))))"

text \<open>\<open>removeUserFromGroup\<close> of \<open>app.js\<close>: every error is logged as a failure.\<close>

definition removeUserFromGroup_app :: "env \<Rightarrow> world \<Rightarrow> int \<Rightarrow> world" where
  "removeUserFromGroup_app env w telegramId =
     (case api_call env w (banChatMember (TELEGRAM_GROUP_ID env) telegramId) of
        (r1, w1) \<Rightarrow>
          (case r1 of
             TgError d \<Rightarrow> console ERROR (FailedToRemove telegramId) w1
           | TgOk \<Rightarrow>
               (case api_call env w1 (unbanChatMember (TELEGRAM_GROUP_ID env) telegramId) of
                  (r2, w2) \<Rightarrow>
                    (case r2 of
                       TgError d \<Rightarrow> console ERROR (FailedToRemove telegramId) w2
                     | TgOk \<Rightarrow> console LOG (Removed telegramId) w2))))"

section \<open>The payment webhook\<close>

datatype response_body =
    OK
  | Invalid_signature
  | Webhook_error
  | Forbidden_Invalid_Token
  | Error_loading_dashboard
  | Dashboard_page "row list" sort_order

datatype response = Response nat response_body

definition verifySignature :: "env \<Rightarrow> bool" where
  "verifySignature env = (VERIFY_STRIPE_SIGNATURE env = ''true'')"

definition revoking_types :: "string list" where
  "revoking_types =
     [''invoice.payment_failed'', ''customer.subscription.deleted'',
      ''charge.failed'', ''charge.dispute.created'']"

text \<open>
  The event, as both files get it: \<open>constructEvent\<close> when the signature is verified,
  \<open>JSON.parse\<close> otherwise.
\<close>

definition acquire_event :: "env \<Rightarrow> request \<Rightarrow> exn + event" where
  "acquire_event env req =
     (if verifySignature env
      then constructEvent env (body req) (stripe_signature req) (STRIPE_WEBHOOK_SECRET env)
      else JSON_parse env (body req))"

text \<open>
  The email of the event (the same lines in both files): \<open>dataObject.customer_email\<close>,
  or, when that is falsy and \<open>dataObject.customer\<close> is truthy, the email of the customer
  retrieved from Stripe; a failed retrieval is logged and leaves the email as it was.
\<close>

definition resolve_email :: "env \<Rightarrow> world \<Rightarrow> event \<Rightarrow> string option \<times> world" where
  "resolve_email env w event =
     (let dataObject =
            (case data_object event of
               None \<Rightarrow> \<lparr>customer_email = None, customer = None\<rparr>
             | Some obj \<Rightarrow> obj);
          email = customer_email dataObject
      in if \<not> truthy email \<and> truthy (customer dataObject)
         then (case customer dataObject of
                 None \<Rightarrow> (email, w)
               | Some cid \<Rightarrow>
                   (case customers_retrieve env cid of
                      Inl err \<Rightarrow>
                        (email, console ERROR FailedToFetchCustomerEmail (emit (StripeRetrieve cid) w))
                    | Inr customer_email' \<Rightarrow> (customer_email', emit (StripeRetrieve cid) w)))
         else (email, w))"

text \<open>
  The file with the dashboard, after the event is there (still inside the outer \<open>try\<close>):
  \<open>Inl\<close> is an exception on its way to the outer \<open>catch\<close>.
\<close>

definition process_event :: "env \<Rightarrow> world \<Rightarrow> event \<Rightarrow> (exn + response) \<times> world" where
  "process_event env w event =
     (case resolve_email env w event of
        (email, w1) \<Rightarrow>
          (case email of
             None \<Rightarrow> (Inr (Response 200 OK), console WARN NoEmailFound w1)
           | Some e \<Rightarrow>
               if e = [] then (Inr (Response 200 OK), console WARN NoEmailFound w1)
               else
                 (case getTelegramIdByEmail w1 e of
                    (r, w2) \<Rightarrow>
                      (case r of
                         Inl err \<Rightarrow> (Inl err, w2)
                       | Inr None \<Rightarrow>
                           (Inr (Response 200 OK), console WARN (NoTelegramIdFound e) w2)
                       | Inr (Some telegramId) \<Rightarrow>
                           if event_type event \<in> set revoking_types
                           then (Inr (Response 200 OK),
                                 removeUserFromGroup env
                                   (console LOG (AttemptingToRemove telegramId e) w2) telegramId)
                           else (Inr (Response 200 OK), w2)))))"

text \<open>The outer \<open>catch\<close> of the file with the dashboard.\<close>

definition webhook_catch :: "(exn + response) \<times> world \<Rightarrow> response \<times> world" where
  "webhook_catch rw =
     (case rw of
        (Inl err, w) \<Rightarrow> (Response 500 Webhook_error, console ERROR WebhookHandlerError w)
      | (Inr resp, w) \<Rightarrow> (resp, w))"

text \<open>
  \<open>app.post("/webhook")\<close> of the file with the dashboard. A failed verification has a
  \<open>catch\<close> of its own; a failed \<open>JSON.parse\<close> goes to the outer one.
\<close>

definition webhook :: "env \<Rightarrow> world \<Rightarrow> request \<Rightarrow> response \<times> world" where
  "webhook env w req =
     (if verifySignature env then
        (case constructEvent env (body req) (stripe_signature req) (STRIPE_WEBHOOK_SECRET env) of
           Inl err \<Rightarrow>
             (Response 400 Invalid_signature, console ERROR SignatureVerificationFailed w)
         | Inr event \<Rightarrow> webhook_catch (process_event env w event))
      else
        (case JSON_parse env (body req) of
           Inl err \<Rightarrow> webhook_catch (Inl err, w)
         | Inr event \<Rightarrow> webhook_catch (process_event env w event)))"

text \<open>
  \<open>app.post("/webhook")\<close> of \<open>app.js\<close>. One \<open>catch\<close> for verification and parsing; the
  type is tested before the lookup; nothing catches an exception of the lookup, so
  \<open>Inl\<close> is the handler's promise rejected with no response sent.
\<close>

definition webhook_app :: "env \<Rightarrow> world \<Rightarrow> request \<Rightarrow> (exn + response) \<times> world" where
  "webhook_app env w req =
     (case acquire_event env req of
        Inl err \<Rightarrow> (Inr (Response 400 Invalid_signature), console ERROR StripeWebhookError w)
      | Inr event \<Rightarrow>
          (case resolve_email env w event of
             (email, w1) \<Rightarrow>
               if event_type event \<in> set revoking_types \<and> truthy email then
                 (case email of
                    None \<Rightarrow> (Inr (Response 200 OK), w1)
                  | Some e \<Rightarrow>
                      (case getTelegramIdByEmail w1 e of
                         (r, w2) \<Rightarrow>
                           (case r of
                              Inl err \<Rightarrow> (Inl err, w2)
                            | Inr None \<Rightarrow> (Inr (Response 200 OK), w2)
                            | Inr (Some telegramId) \<Rightarrow>
                                (Inr (Response 200 OK),
                                 removeUserFromGroup_app env
                                   (console LOG (Removing telegramId e) w2) telegramId))))
               else (Inr (Response 200 OK), w1)))"

section \<open>The linking flow\<close>

text \<open>
  \<open>bot.on("text")\<close>, the same in both files. \<open>!userId\<close> holds for a missing sender and
  for the id 0. \<open>Inl\<close> is an exception of the store leaving the handler.
\<close>

definition on_text :: "world \<Rightarrow> ctx \<Rightarrow> (exn + unit) \<times> world" where
  "on_text w c =
     (let userId = from_id c;
          text = trim (message_text c)
      in case userId of
           None \<Rightarrow> (Inr (), reply CouldNotIdentifyUser w)
         | Some uid \<Rightarrow>
             if uid = 0 then (Inr (), reply CouldNotIdentifyUser w)
             else if startsWith text ''/'' then (Inr (), w)
             else if \<not> (includes_str text ''@'' \<and> includes_str text ''.'')
             then (Inr (), reply Guidance w)
             else
               (case getEmailByUser w uid of
                  (r, w1) \<Rightarrow>
                    (case r of
                       Inl err \<Rightarrow> (Inl err, w1)
                     | Inr (Some existing) \<Rightarrow> (Inr (), reply (AlreadyLinked existing) w1)
                     | Inr None \<Rightarrow>
                         (case insertOrUpdateUser w1 uid text of
                            (r', w2) \<Rightarrow>
                              (case r' of
                                 Inl err \<Rightarrow> (Inl err, w2)
                               | Inr ok \<Rightarrow> (Inr (), reply (Linked text) w2))))))"

section \<open>The dashboard\<close>

text \<open>\<open>token !== process.env.DASHBOARD_ACCESS_TOKEN\<close> is the negation of this.\<close>

fun strict_eq :: "query_value \<Rightarrow> string option \<Rightarrow> bool" where
  "strict_eq Absent None = True"
| "strict_eq (QString s) (Some t) = (s = t)"
| "strict_eq q v = False"

text \<open>
  \<open>app.get("/dashboard")\<close>: the gate, then the listing ordered by \<open>joined_at\<close>; an
  exception of the store is caught and answered with 500.
\<close>

definition dashboard :: "env \<Rightarrow> world \<Rightarrow> dashboard_query \<Rightarrow> response \<times> world" where
  "dashboard env w q =
     (if \<not> strict_eq (token q) (DASHBOARD_ACCESS_TOKEN env)
      then (Response 403 Forbidden_Invalid_Token, w)
      else
        let sortOrder = (if order q = QString ''desc'' then DESC else ASC) in
        case select_all_order_by w ''joined_at'' sortOrder of
          (r, w1) \<Rightarrow>
            (case r of
               Inl err \<Rightarrow>
                 (Response 500 Error_loading_dashboard, console ERROR ErrorRenderingDashboard w1)
             | Inr rows \<Rightarrow> (Response 200 (Dashboard_page rows sortOrder), w1)))"

section \<open>Reading a trace\<close>

text \<open>What a handler added to the trace, and the calls and statements among it.\<close>

definition new_effects :: "world \<Rightarrow> world \<Rightarrow> effect list" where
  "new_effects w w' = drop (length (trace w)) (trace w')"

fun tg_calls :: "effect list \<Rightarrow> tg_call list" where
  "tg_calls [] = []"
| "tg_calls (Telegram c # es) = c # tg_calls es"
| "tg_calls (e # es) = tg_calls es"

fun queries :: "effect list \<Rightarrow> sql list" where
  "queries [] = []"
| "queries (Query q # es) = q # queries es"
| "queries (e # es) = queries es"

fun replies :: "effect list \<Rightarrow> reply_msg list" where
  "replies [] = []"
| "replies (Reply m # es) = m # replies es"
| "replies (e # es) = replies es"

text \<open>
  The revoke of an account is invoked between two states when the first Telegram call
  added is the ban of that account from the configured group.
\<close>

definition revoke_invoked :: "env \<Rightarrow> world \<Rightarrow> world \<Rightarrow> int \<Rightarrow> bool" where
  "revoke_invoked env w w' telegramId =
     (take 1 (tg_calls (new_effects w w')) = [banChatMember (TELEGRAM_GROUP_ID env) telegramId])"

text \<open>
  \<open>removeUserFromGroup\<close> returns nothing; its outcome is the line it writes. The three
  outcomes of the revoke, read off the console lines of a trace with their severity:
  the success line is \<open>removed\<close>, the \<open>not in group\<close> line is \<open>not_a_member\<close>, the
  \<open>Failed to remove\<close> line is \<open>failed\<close>.
\<close>

datatype outcome = removed | not_a_member | failed

fun outcome_of_msg :: "console_msg \<Rightarrow> outcome option" where
  "outcome_of_msg (AttemptedToRemove t) = Some removed"
| "outcome_of_msg (Removed t) = Some removed"
| "outcome_of_msg (NotInGroup t) = Some not_a_member"
| "outcome_of_msg (FailedToRemove t) = Some failed"
| "outcome_of_msg m = None"

fun revoke_outcomes :: "effect list \<Rightarrow> (level \<times> outcome) list" where
  "revoke_outcomes [] = []"
| "revoke_outcomes (Console l m # es) =
     (case outcome_of_msg m of
        None \<Rightarrow> revoke_outcomes es
      | Some out \<Rightarrow> (l, out) # revoke_outcomes es)"
| "revoke_outcomes (e # es) = revoke_outcomes es"

section \<open>Example inputs\<close>

text \<open>
  Two events (a failed invoice payment and a completed checkout, both of the subscriber
  \<open>a@b.com\<close>), the bodies that carry them, and a store linking account 555 to that
  email.
\<close>

definition payment_failed_event :: event where
  "payment_failed_event =
     \<lparr>event_type = ''invoice.payment_failed'',
      data_object = Some \<lparr>customer_email = Some ''a@b.com'', customer = None\<rparr>\<rparr>"

definition checkout_event :: event where
  "checkout_event =
     \<lparr>event_type = ''checkout.session.completed'',
      data_object = Some \<lparr>customer_email = Some ''a@b.com'', customer = None\<rparr>\<rparr>"

definition example_parse :: "string \<Rightarrow> exn + event" where
  "example_parse b =
     (if b = ''{payment_failed}'' then Inr payment_failed_event
      else if b = ''{checkout}'' then Inr checkout_event
      else Inl SyntaxError)"

definition example_constructEvent :: "string \<Rightarrow> string option \<Rightarrow> string \<Rightarrow> exn + event" where
  "example_constructEvent b sig secret =
     (if sig = Some (''v1='' @ secret) then example_parse b
      else Inl SignatureVerificationError)"

text \<open>
  A Telegram that lets the bot ban an account once, and answers a later ban of the same
  account with \<open>USER_NOT_PARTICIPANT\<close>: the account is no longer in the group.
\<close>

definition example_telegram :: "effect list \<Rightarrow> tg_call \<Rightarrow> tg_result" where
  "example_telegram history c =
     (case c of
        banChatMember g u \<Rightarrow>
          if banChatMember g u \<in> set (tg_calls history)
          then TgError (Some ''Bad Request: USER_NOT_PARTICIPANT'')
          else TgOk
      | unbanChatMember g u \<Rightarrow> TgOk)"

definition example_env :: env where
  "example_env =
     \<lparr>TELEGRAM_GROUP_ID = ''-1001'',
      STRIPE_WEBHOOK_SECRET = ''whsec'',
      VERIFY_STRIPE_SIGNATURE = ''true'',
      DASHBOARD_ACCESS_TOKEN = Some ''admin-token'',
      constructEvent = example_constructEvent,
      JSON_parse = example_parse,
      customers_retrieve = (\<lambda>cid. Inl StripeAPIError),
      telegram = example_telegram\<rparr>"

definition payment_failed_request :: request where
  "payment_failed_request = \<lparr>body = ''{payment_failed}'', stripe_signature = Some ''v1=whsec''\<rparr>"

definition checkout_request :: request where
  "checkout_request = \<lparr>body = ''{checkout}'', stripe_signature = Some ''v1=whsec''\<rparr>"

definition forged_request :: request where
  "forged_request = \<lparr>body = ''{payment_failed}'', stripe_signature = Some ''v1=guess''\<rparr>"

definition linked_world :: world where
  "linked_world = \<lparr>pool_up = True, telegram_users = Some [(555, ''a@b.com'')], trace = []\<rparr>"


text \<open>The state after the failed payment was delivered once to the linked store.\<close>

definition delivered_once :: world where
  "delivered_once = snd (webhook example_env linked_world payment_failed_request)"

text \<open>A Telegram in which the account is not in the group: every call is refused.\<close>

definition not_member_env :: env where
  "not_member_env =
     example_env\<lparr>telegram := (\<lambda>history c. TgError (Some ''Bad Request: USER_NOT_PARTICIPANT''))\<rparr>"

text \<open>
  A database with no table yet, and four messages: account 555 sends its email with
  blanks around it, then another email; account 777 sends the email of account 555;
  account 555 sends an email behind a slash.
\<close>

definition fresh_world :: world where
  "fresh_world = \<lparr>pool_up = True, telegram_users = None, trace = []\<rparr>"

definition first_email_ctx :: ctx where
  "first_email_ctx = \<lparr>from_id = Some 555, message_text = ''  a@b.com ''\<rparr>"

definition new_email_ctx :: ctx where
  "new_email_ctx = \<lparr>from_id = Some 555, message_text = ''new@x.org''\<rparr>"

definition same_email_ctx :: ctx where
  "same_email_ctx = \<lparr>from_id = Some 777, message_text = ''a@b.com''\<rparr>"

definition slash_ctx :: ctx where
  "slash_ctx = \<lparr>from_id = Some 555, message_text = ''/a@b.com''\<rparr>"

text \<open>
  The state after \<open>initDb\<close> on the empty database and the first message of account 555;
  a dashboard request with the configured token, and one with no token at all against a
  configuration with no token.
\<close>

definition first_linked_world :: world where
  "first_linked_world = snd (on_text (snd (initDb fresh_world)) first_email_ctx)"

definition token_query :: dashboard_query where
  "token_query = \<lparr>token = QString ''admin-token'', order = Absent\<rparr>"

definition no_token_query :: dashboard_query where
  "no_token_query = \<lparr>token = Absent, order = Absent\<rparr>"

definition no_token_env :: env where
  "no_token_env = example_env\<lparr>DASHBOARD_ACCESS_TOKEN := None\<rparr>"

section \<open>The store as the handlers see it\<close>


text \<open>The rows of the table (none while there is no table).\<close>

definition stored_rows :: "world \<Rightarrow> row list" where
  "stored_rows w = (case telegram_users w of None \<Rightarrow> [] | Some rows \<Rightarrow> rows)"

text \<open>The text handler run on a sequence of messages, exceptions or not.\<close>

fun run_texts :: "world \<Rightarrow> ctx list \<Rightarrow> world" where
  "run_texts w [] = w"
| "run_texts w (c # cs) = run_texts (snd (on_text w c)) cs"

text \<open>What the text handler takes for an email: the trimmed text passes its tests.\<close>

definition email_like :: "string \<Rightarrow> bool" where
  "email_like text =
     (\<not> startsWith text ''/'' \<and> includes_str text ''@'' \<and> includes_str text ''.'')"

text \<open>
  A stored row comes from a message: the sender is the account of the row, and the email
  of the row is the trimmed text of the message, contains \<open>@\<close> and \<open>.\<close>, and does not
  start with a slash.
\<close>

definition stored_from :: "ctx \<Rightarrow> row \<Rightarrow> bool" where
  "stored_from c r =
     (from_id c = Some (fst r) \<and> snd r = trim (message_text c) \<and>
      includes_str (snd r) ''@'' \<and> includes_str (snd r) ''.'' \<and> \<not> startsWith (snd r) ''/'')"

section \<open>Basic facts\<close>

text \<open>\<open>includes_str\<close> is the substring test.\<close>

lemma includes_str_iff:
  "includes_str s sub \<longleftrightarrow> (\<exists>pre post. s = pre @ sub @ post)"
proof (induction s)
  case Nil
  then show ?case by auto
next
  case (Cons c cs)
  have a: "startsWith (c # cs) sub \<longleftrightarrow> (\<exists>post. c # cs = sub @ post)"
    unfolding startsWith_def
    by (metis append_eq_conv_conj append_take_drop_id)
  have b: "(\<exists>pre post. c # cs = pre @ sub @ post) \<longleftrightarrow>
        (\<exists>post. c # cs = sub @ post) \<or> (\<exists>pre post. cs = pre @ sub @ post)"
  proof
    assume "\<exists>pre post. c # cs = pre @ sub @ post"
    then obtain pre post where p: "c # cs = pre @ sub @ post" by blast
    show "(\<exists>post. c # cs = sub @ post) \<or> (\<exists>pre post. cs = pre @ sub @ post)"
    proof (cases pre)
      case Nil
      with p show ?thesis by auto
    next
      case (Cons x xs)
      with p have "cs = xs @ sub @ post" by simp
      then show ?thesis by blast
    qed
  next
    assume "(\<exists>post. c # cs = sub @ post) \<or> (\<exists>pre post. cs = pre @ sub @ post)"
    then show "\<exists>pre post. c # cs = pre @ sub @ post"
    proof
      assume "\<exists>post. c # cs = sub @ post"
      then obtain post where "c # cs = [] @ sub @ post" by auto
      then show ?thesis by blast
    next
      assume "\<exists>pre post. cs = pre @ sub @ post"
      then obtain pre post where "c # cs = (c # pre) @ sub @ post" by auto
      then show ?thesis by blast
    qed
  qed
  show ?case using Cons.IH a b by simp
qed

text \<open>The lookup by email ignores the case of ASCII letters.\<close>

lemma example_lower: "lower ''User@Example.com'' = lower ''user@example.com''"
  by code_simp

lemma example_lookup_ignores_case:
  "fst (getTelegramIdByEmail
      \<lparr>pool_up = True, telegram_users = Some [(555, ''User@Example.com'')], trace = []\<rparr>
      ''user@example.com'') = Inr (Some 555)"
  by (simp add: getTelegramIdByEmail_def example_lower)



lemma trace_emit [simp]: "trace (emit e w) = trace w @ [e]"
  and pool_up_emit [simp]: "pool_up (emit e w) = pool_up w"
  and telegram_users_emit [simp]: "telegram_users (emit e w) = telegram_users w"
  by (simp_all add: emit_def)

lemma trace_console [simp]: "trace (console l m w) = trace w @ [Console l m]"
  and pool_up_console [simp]: "pool_up (console l m w) = pool_up w"
  and telegram_users_console [simp]: "telegram_users (console l m w) = telegram_users w"
  by (simp_all add: console_def)

lemma trace_reply [simp]: "trace (reply m w) = trace w @ [Reply m]"
  and pool_up_reply [simp]: "pool_up (reply m w) = pool_up w"
  and telegram_users_reply [simp]: "telegram_users (reply m w) = telegram_users w"
  by (simp_all add: reply_def)

lemma tg_calls_append [simp]: "tg_calls (xs @ ys) = tg_calls xs @ tg_calls ys"
  by (induction xs rule: tg_calls.induct) simp_all

lemma queries_append [simp]: "queries (xs @ ys) = queries xs @ queries ys"
  by (induction xs rule: queries.induct) simp_all

lemma replies_append [simp]: "replies (xs @ ys) = replies xs @ replies ys"
  by (induction xs rule: replies.induct) simp_all

lemma new_effects_append: "trace w' = trace w @ es \<Longrightarrow> new_effects w w' = es"
  by (simp add: new_effects_def)

lemma removeUserFromGroup_frame:
  "pool_up (removeUserFromGroup env w t) = pool_up w"
  "telegram_users (removeUserFromGroup env w t) = telegram_users w"
  by (simp_all add: removeUserFromGroup_def api_call_def removeUserFromGroup_catch_def
      split: tg_result.splits)

lemma removeUserFromGroup_trace:
  "\<exists>es. trace (removeUserFromGroup env w t) =
      trace w @ Telegram (banChatMember (TELEGRAM_GROUP_ID env) t) # es \<and>
      (tg_calls es = [] \<or> tg_calls es = [unbanChatMember (TELEGRAM_GROUP_ID env) t]) \<and>
      queries es = []"
  by (simp add: removeUserFromGroup_def api_call_def removeUserFromGroup_catch_def
      split: tg_result.splits)

lemma removeUserFromGroup_app_trace:
  "\<exists>es. trace (removeUserFromGroup_app env w t) =
      trace w @ Telegram (banChatMember (TELEGRAM_GROUP_ID env) t) # es \<and>
      (tg_calls es = [] \<or> tg_calls es = [unbanChatMember (TELEGRAM_GROUP_ID env) t]) \<and>
      queries es = []"
  by (simp add: removeUserFromGroup_app_def api_call_def 
      split: tg_result.splits)

lemma resolve_email_trace:
  "resolve_email env w ev = (em, w1) \<Longrightarrow>
     \<exists>es. trace w1 = trace w @ es \<and> tg_calls es = [] \<and> queries es = [] \<and>
       pool_up w1 = pool_up w \<and> telegram_users w1 = telegram_users w"
  by (auto simp add: resolve_email_def Let_def split: option.splits sum.splits if_splits)

lemma getTelegramIdByEmail_trace:
  "getTelegramIdByEmail w e = (r, w2) \<Longrightarrow>
     \<exists>es. trace w2 = trace w @ es \<and> tg_calls es = [] \<and> 
       pool_up w2 = pool_up w \<and> telegram_users w2 = telegram_users w"
  by (auto simp add: getTelegramIdByEmail_def Let_def split: option.splits list.splits if_splits)


lemma webhook_frame:
  "pool_up (snd (webhook env w req)) = pool_up w"
  "telegram_users (snd (webhook env w req)) = telegram_users w"
  by (auto simp add: webhook_def webhook_catch_def process_event_def removeUserFromGroup_frame
      split: sum.splits option.splits prod.splits if_splits
      dest!: resolve_email_trace getTelegramIdByEmail_trace)


lemma process_event_no_email:
  "resolve_email env w ev = (em, w1) \<Longrightarrow> \<not> truthy em \<Longrightarrow>
     process_event env w ev = (Inr (Response 200 OK), console WARN NoEmailFound w1)"
  by (cases em) (simp_all add: process_event_def)

lemma process_event_lookup:
  "resolve_email env w ev = (Some e, w1) \<Longrightarrow> e \<noteq> [] \<Longrightarrow> getTelegramIdByEmail w1 e = (r, w2) \<Longrightarrow>
     process_event env w ev =
       (case r of
          Inl err \<Rightarrow> (Inl err, w2)
        | Inr None \<Rightarrow> (Inr (Response 200 OK), console WARN (NoTelegramIdFound e) w2)
        | Inr (Some telegramId) \<Rightarrow>
            if event_type ev \<in> set revoking_types
            then (Inr (Response 200 OK),
                  removeUserFromGroup env (console LOG (AttemptingToRemove telegramId e) w2) telegramId)
            else (Inr (Response 200 OK), w2))"
  by (simp add: process_event_def)

lemma webhook_acquired:
  "acquire_event env req = Inr ev \<Longrightarrow> webhook env w req = webhook_catch (process_event env w ev)"
  by (simp add: acquire_event_def webhook_def split: if_splits)

lemma webhook_app_acquired:
  "acquire_event env req = Inr ev \<Longrightarrow> resolve_email env w ev = (em, w1) \<Longrightarrow>
   webhook_app env w req =
     (if event_type ev \<in> set revoking_types \<and> truthy em then
        (case em of
           None \<Rightarrow> (Inr (Response 200 OK), w1)
         | Some e \<Rightarrow>
            (case getTelegramIdByEmail w1 e of
              (r, w2) \<Rightarrow>
               (case r of
                  Inl err \<Rightarrow> (Inl err, w2)
                | Inr None \<Rightarrow> (Inr (Response 200 OK), w2)
                | Inr (Some telegramId) \<Rightarrow>
                    (Inr (Response 200 OK),
                     removeUserFromGroup_app env
                       (console LOG (Removing telegramId e) w2) telegramId))))
      else (Inr (Response 200 OK), w1))"
  by (simp add: webhook_app_def)

lemma webhook_not_revoking:
  assumes "acquire_event env req = Inr ev" "event_type ev \<notin> set revoking_types"
  shows "tg_calls (new_effects w (snd (webhook env w req))) = []"
proof -
  obtain em w1 where r: "resolve_email env w ev = (em, w1)" by (cases "resolve_email env w ev")
  from resolve_email_trace[OF r] obtain es where
    es: "trace w1 = trace w @ es" "tg_calls es = []" by blast
  show ?thesis
  proof (cases "truthy em")
    case False
    with r es assms show ?thesis
      by (simp add: webhook_acquired process_event_no_email webhook_catch_def new_effects_def)
  next
    case True
    then obtain e where e: "em = Some e" "e \<noteq> []" by (cases em) auto
    obtain r2 w2 where l: "getTelegramIdByEmail w1 e = (r2, w2)" by (cases "getTelegramIdByEmail w1 e")
    from getTelegramIdByEmail_trace[OF l] obtain es2 where
      es2: "trace w2 = trace w1 @ es2" "tg_calls es2 = []" by blast
    from r e l es es2 assms show ?thesis
      by (simp add: webhook_acquired process_event_lookup[OF r[unfolded e(1)] e(2) l] webhook_catch_def new_effects_def
          split: sum.splits option.splits)
  qed
qed


lemma webhook_app_not_revoking:
  assumes "acquire_event env req = Inr ev" "event_type ev \<notin> set revoking_types"
  shows "tg_calls (new_effects w (snd (webhook_app env w req))) = []"
proof -
  obtain em w1 where r: "resolve_email env w ev = (em, w1)" by (cases "resolve_email env w ev")
  from resolve_email_trace[OF r] obtain es where
    es: "trace w1 = trace w @ es" "tg_calls es = []" by blast
  from assms r es show ?thesis
    by (simp add: webhook_app_acquired[OF assms(1) r] new_effects_def)
qed

lemma revoke_invoked_webhook:
  assumes acq: "acquire_event env req = Inr ev"
    and r: "resolve_email env w ev = (Some e, w1)" and ne: "e \<noteq> []"
    and l: "fst (getTelegramIdByEmail w1 e) = Inr (Some telegramId)"
  shows "revoke_invoked env w (snd (webhook env w req)) telegramId
           \<longleftrightarrow> event_type ev \<in> set revoking_types"
proof -
  obtain w2 where l2: "getTelegramIdByEmail w1 e = (Inr (Some telegramId), w2)"
    using l by (cases "getTelegramIdByEmail w1 e") auto
  from resolve_email_trace[OF r] obtain es where
    es: "trace w1 = trace w @ es" "tg_calls es = []" by blast
  from getTelegramIdByEmail_trace[OF l2] obtain es2 where
    es2: "trace w2 = trace w1 @ es2" "tg_calls es2 = []" by blast
  obtain es3 where es3: "trace (removeUserFromGroup env (console LOG (AttemptingToRemove telegramId e) w2) telegramId) =
      trace (console LOG (AttemptingToRemove telegramId e) w2) @ Telegram (banChatMember (TELEGRAM_GROUP_ID env) telegramId) # es3"
    using removeUserFromGroup_trace by blast
  show ?thesis
    using es es2 es3
    by (simp add: webhook_acquired[OF acq] process_event_lookup[OF r ne l2] webhook_catch_def
        revoke_invoked_def new_effects_def)
qed

lemma revoke_invoked_webhook_app:
  assumes acq: "acquire_event env req = Inr ev"
    and r: "resolve_email env w ev = (Some e, w1)" and ne: "e \<noteq> []"
    and l: "fst (getTelegramIdByEmail w1 e) = Inr (Some telegramId)"
  shows "revoke_invoked env w (snd (webhook_app env w req)) telegramId
           \<longleftrightarrow> event_type ev \<in> set revoking_types"
proof -
  obtain w2 where l2: "getTelegramIdByEmail w1 e = (Inr (Some telegramId), w2)"
    using l by (cases "getTelegramIdByEmail w1 e") auto
  from resolve_email_trace[OF r] obtain es where
    es: "trace w1 = trace w @ es" "tg_calls es = []" by blast
  from getTelegramIdByEmail_trace[OF l2] obtain es2 where
    es2: "trace w2 = trace w1 @ es2" "tg_calls es2 = []" by blast
  obtain es3 where es3: "trace (removeUserFromGroup_app env (console LOG (Removing telegramId e) w2) telegramId) =
      trace (console LOG (Removing telegramId e) w2) @ Telegram (banChatMember (TELEGRAM_GROUP_ID env) telegramId) # es3"
    using removeUserFromGroup_app_trace by blast
  show ?thesis
    using es es2 es3 ne
    by (simp add: webhook_app_acquired[OF acq r] l2 revoke_invoked_def new_effects_def)
qed

lemmas example_defs = example_env_def linked_world_def payment_failed_request_def checkout_request_def forged_request_def
    verifySignature_def acquire_event_def
    example_constructEvent_def example_parse_def payment_failed_event_def checkout_event_def

lemma example_acquire_payment_failed: "acquire_event example_env payment_failed_request = Inr payment_failed_event"
  by (simp add: example_defs)

lemma example_resolve_email: "resolve_email example_env linked_world payment_failed_event = (Some ''a@b.com'', linked_world)"
  by (simp add: example_defs resolve_email_def)

lemma example_lookup: "fst (getTelegramIdByEmail linked_world ''a@b.com'') = Inr (Some 555)"
  by (simp add: getTelegramIdByEmail_def linked_world_def)


lemma example_types: "event_type payment_failed_event \<in> set revoking_types"
  "event_type checkout_event \<notin> set revoking_types"
  by (simp_all add: payment_failed_event_def checkout_event_def revoking_types_def)

lemma example_acquire_checkout: "acquire_event example_env checkout_request = Inr checkout_event"
  by (simp add: example_defs)

section \<open>Claims\<close>

subsection \<open>C1: revoke exactly on the revoking types\<close>

text \<open>
  C1. Once the event is there (verified, or parsed when verification is off): if its type
  is outside the four revoking types, the handler makes no Telegram call at all, whatever
  the email and the store; and if the email resolves (truthy) and the store returns an
  account id for it, the revoke of that account is invoked if and only if the type is one
  of \<open>invoice.payment_failed\<close>, \<open>customer.subscription.deleted\<close>, \<open>charge.failed\<close>,
  \<open>charge.dispute.created\<close>. Both files.
\<close>

theorem revoke_iff_revoking_type:
  "acquire_event env req = Inr ev \<Longrightarrow>
     (event_type ev \<notin> set revoking_types \<longrightarrow>
        tg_calls (new_effects w (snd (webhook env w req))) = [] \<and>
        tg_calls (new_effects w (snd (webhook_app env w req))) = []) \<and>
     (resolve_email env w ev = (Some e, w1) \<and> e \<noteq> [] \<and>
      fst (getTelegramIdByEmail w1 e) = Inr (Some telegramId) \<longrightarrow>
        (revoke_invoked env w (snd (webhook env w req)) telegramId
           \<longleftrightarrow> event_type ev \<in> set revoking_types) \<and>
        (revoke_invoked env w (snd (webhook_app env w req)) telegramId
           \<longleftrightarrow> event_type ev \<in> set revoking_types))"
  by (intro conjI impI; (elim conjE)?)
    (simp_all add: webhook_not_revoking webhook_app_not_revoking
       revoke_invoked_webhook revoke_invoked_webhook_app)

theorem revoke_iff_revoking_type_witness:
  "acquire_event example_env payment_failed_request = Inr payment_failed_event \<and>
   resolve_email example_env linked_world payment_failed_event = (Some ''a@b.com'', linked_world) \<and>
   fst (getTelegramIdByEmail linked_world ''a@b.com'') = Inr (Some 555) \<and>
   event_type payment_failed_event \<in> set revoking_types \<and>
   revoke_invoked example_env linked_world
     (snd (webhook example_env linked_world payment_failed_request)) 555 \<and>
   revoke_invoked example_env linked_world
     (snd (webhook_app example_env linked_world payment_failed_request)) 555 \<and>
   acquire_event example_env checkout_request = Inr checkout_event \<and>
   event_type checkout_event \<notin> set revoking_types \<and>
   tg_calls (new_effects linked_world (snd (webhook example_env linked_world checkout_request))) = [] \<and>
   tg_calls (new_effects linked_world (snd (webhook_app example_env linked_world checkout_request))) = []"
  using revoke_iff_revoking_type [OF example_acquire_payment_failed, of linked_world "''a@b.com''" linked_world 555]
    revoke_iff_revoking_type [OF example_acquire_checkout, of linked_world]
    example_acquire_payment_failed example_resolve_email example_lookup example_types example_acquire_checkout
  by simp

subsection \<open>C3: a failed signature verification\<close>

text \<open>
  C3. With verification enabled, a request whose signature \<open>constructEvent\<close> refuses is
  answered 400 \<open>Invalid signature\<close>; the handler writes one line to the console and does
  nothing else: no statement is sent to the store, no Telegram call is made, and the
  store is unchanged. Both files.
\<close>

theorem bad_signature_rejected:
  "verifySignature env \<Longrightarrow>
   constructEvent env (body req) (stripe_signature req) (STRIPE_WEBHOOK_SECRET env) = Inl err \<Longrightarrow>
     fst (webhook env w req) = Response 400 Invalid_signature \<and>
     new_effects w (snd (webhook env w req)) = [Console ERROR SignatureVerificationFailed] \<and>
     queries (new_effects w (snd (webhook env w req))) = [] \<and>
     tg_calls (new_effects w (snd (webhook env w req))) = [] \<and>
     telegram_users (snd (webhook env w req)) = telegram_users w \<and>
     fst (webhook_app env w req) = Inr (Response 400 Invalid_signature) \<and>
     new_effects w (snd (webhook_app env w req)) = [Console ERROR StripeWebhookError] \<and>
     queries (new_effects w (snd (webhook_app env w req))) = [] \<and>
     tg_calls (new_effects w (snd (webhook_app env w req))) = [] \<and>
     telegram_users (snd (webhook_app env w req)) = telegram_users w"
  by (simp add: webhook_def webhook_app_def acquire_event_def new_effects_def)

theorem bad_signature_rejected_witness:
  "verifySignature example_env \<and>
   constructEvent example_env (body forged_request) (stripe_signature forged_request)
     (STRIPE_WEBHOOK_SECRET example_env) = Inl SignatureVerificationError \<and>
   fst (webhook example_env linked_world forged_request) = Response 400 Invalid_signature \<and>
   queries (new_effects linked_world (snd (webhook example_env linked_world forged_request))) = [] \<and>
   tg_calls (new_effects linked_world (snd (webhook example_env linked_world forged_request))) = [] \<and>
   telegram_users (snd (webhook example_env linked_world forged_request)) = Some [(555, ''a@b.com'')] \<and>
   fst (webhook_app example_env linked_world forged_request) = Inr (Response 400 Invalid_signature) \<and>
   queries (new_effects linked_world (snd (webhook_app example_env linked_world forged_request))) = [] \<and>
   tg_calls (new_effects linked_world (snd (webhook_app example_env linked_world forged_request))) = []"
proof -
  have v: "verifySignature example_env"
    by (simp add: example_defs)
  have c: "constructEvent example_env (body forged_request) (stripe_signature forged_request)
     (STRIPE_WEBHOOK_SECRET example_env) = Inl SignatureVerificationError"
    by (simp add: example_defs)
  have t: "telegram_users linked_world = Some [(555, ''a@b.com'')]"
    by (simp add: linked_world_def)
  show ?thesis
    using bad_signature_rejected [OF v c, of linked_world] v c t by simp
qed

subsection \<open>C2: the acknowledgment\<close>

lemma resolve_email_fst:
  "fst (resolve_email env w ev) = fst (resolve_email env w' ev)"
  by (simp add: resolve_email_def Let_def split: option.splits sum.splits)














subsection \<open>C4: the same event delivered twice\<close>

lemma revoke_outcomes_append [simp]:
  "revoke_outcomes (xs @ ys) = revoke_outcomes xs @ revoke_outcomes ys"
  by (induction xs rule: revoke_outcomes.induct) (simp_all split: option.splits)

lemma removeUserFromGroup_outcome:
  "revoke_outcomes (new_effects w (removeUserFromGroup env w t)) =
     (case telegram env (trace w) (banChatMember (TELEGRAM_GROUP_ID env) t) of
        TgError d \<Rightarrow> [if user_not_participant d then (WARN, not_a_member) else (ERROR, failed)]
      | TgOk \<Rightarrow>
          (case telegram env (trace w @ [Telegram (banChatMember (TELEGRAM_GROUP_ID env) t)])
                  (unbanChatMember (TELEGRAM_GROUP_ID env) t) of
             TgError d \<Rightarrow> [if user_not_participant d then (WARN, not_a_member) else (ERROR, failed)]
           | TgOk \<Rightarrow> [(LOG, removed)]))"
  by (simp add: removeUserFromGroup_def api_call_def removeUserFromGroup_catch_def new_effects_def
      split: tg_result.splits)

lemma removeUserFromGroup_calls:
  "tg_calls (new_effects w (removeUserFromGroup env w t)) =
     (case telegram env (trace w) (banChatMember (TELEGRAM_GROUP_ID env) t) of
        TgError d \<Rightarrow> [banChatMember (TELEGRAM_GROUP_ID env) t]
      | TgOk \<Rightarrow> [banChatMember (TELEGRAM_GROUP_ID env) t, unbanChatMember (TELEGRAM_GROUP_ID env) t])"
  by (simp add: removeUserFromGroup_def api_call_def removeUserFromGroup_catch_def new_effects_def
      split: tg_result.splits)

lemma removeUserFromGroup_app_outcome:
  "revoke_outcomes (new_effects w (removeUserFromGroup_app env w t)) =
     (case telegram env (trace w) (banChatMember (TELEGRAM_GROUP_ID env) t) of
        TgError d \<Rightarrow> [(ERROR, failed)]
      | TgOk \<Rightarrow>
          (case telegram env (trace w @ [Telegram (banChatMember (TELEGRAM_GROUP_ID env) t)])
                  (unbanChatMember (TELEGRAM_GROUP_ID env) t) of
             TgError d \<Rightarrow> [(ERROR, failed)]
           | TgOk \<Rightarrow> [(LOG, removed)]))"
  by (simp add: removeUserFromGroup_app_def api_call_def new_effects_def
      split: tg_result.splits)

lemma removeUserFromGroup_one_outcome:
  "length (revoke_outcomes (new_effects w (removeUserFromGroup env w t))) = 1"
  by (simp add: removeUserFromGroup_outcome split: tg_result.splits)

lemma removeUserFromGroup_extends:
  "\<exists>es. trace (removeUserFromGroup env w t) = trace w @ es"
  using removeUserFromGroup_trace by blast

lemma resolve_email_outcomes:
  "revoke_outcomes (new_effects w (snd (resolve_email env w ev))) = []"
  by (simp add: resolve_email_def Let_def new_effects_def split: option.splits sum.splits)

lemma resolve_email_extends:
  "trace (snd (resolve_email env w ev)) = trace w @ new_effects w (snd (resolve_email env w ev))"
  by (simp add: resolve_email_def Let_def new_effects_def split: option.splits sum.splits)

lemma getTelegramIdByEmail_snd:
  "snd (getTelegramIdByEmail w e) = (if pool_up w then emit (Query (SelectTelegramId e)) w else w)"
  by (simp add: getTelegramIdByEmail_def Let_def split: option.splits list.splits)

lemma getTelegramIdByEmail_fst_cong:
  "pool_up w = pool_up w' \<Longrightarrow> telegram_users w = telegram_users w' \<Longrightarrow>
     fst (getTelegramIdByEmail w e) = fst (getTelegramIdByEmail w' e)"
  by (simp add: getTelegramIdByEmail_def Let_def split: option.splits list.splits)

lemma getTelegramIdByEmail_found_up:
  "fst (getTelegramIdByEmail w e) = Inr x \<Longrightarrow> pool_up w"
  by (simp add: getTelegramIdByEmail_def Let_def split: if_splits)

text \<open>The handler on a revoking event whose email resolves to a stored account.\<close>

lemma webhook_revoking:
  assumes acq: "acquire_event env req = Inr ev"
    and rev: "event_type ev \<in> set revoking_types"
    and r: "fst (resolve_email env w ev) = Some e" and ne: "e \<noteq> []"
    and l: "fst (getTelegramIdByEmail w e) = Inr (Some telegramId)"
  shows "webhook env w req =
     (Response 200 OK,
      removeUserFromGroup env
        (console LOG (AttemptingToRemove telegramId e)
          (emit (Query (SelectTelegramId e)) (snd (resolve_email env w ev)))) telegramId)"
proof -
  define w1 where "w1 = snd (resolve_email env w ev)"
  have r1: "resolve_email env w ev = (Some e, w1)"
    using r by (simp add: w1_def prod_eq_iff)
  have same: "pool_up w1 = pool_up w" "telegram_users w1 = telegram_users w"
    using resolve_email_trace [OF r1] by auto
  have l1: "fst (getTelegramIdByEmail w1 e) = Inr (Some telegramId)"
    using l getTelegramIdByEmail_fst_cong [OF same] by simp
  have up: "pool_up w1" using getTelegramIdByEmail_found_up [OF l1] .
  have l2: "getTelegramIdByEmail w1 e = (Inr (Some telegramId), emit (Query (SelectTelegramId e)) w1)"
    using l1 up getTelegramIdByEmail_snd [of w1 e] by (simp add: prod_eq_iff)
  show ?thesis
    using rev
    by (simp add: webhook_acquired [OF acq] process_event_lookup [OF r1 ne l2] webhook_catch_def
        w1_def)
qed




lemma removeUserFromGroup_new_effects:
  "trace (removeUserFromGroup env w t) = trace w @ new_effects w (removeUserFromGroup env w t)"
  using removeUserFromGroup_extends [of env w t] by (auto simp add: new_effects_def)

lemma webhook_revoking_once:
  assumes acq: "acquire_event env req = Inr ev"
    and rev: "event_type ev \<in> set revoking_types"
    and r: "fst (resolve_email env w ev) = Some e" and ne: "e \<noteq> []"
    and l: "fst (getTelegramIdByEmail w e) = Inr (Some telegramId)"
  shows "fst (webhook env w req) = Response 200 OK"
    and "revoke_invoked env w (snd (webhook env w req)) telegramId"
    and "length (revoke_outcomes (new_effects w (snd (webhook env w req)))) = 1"
proof -
  define w1 where "w1 = snd (resolve_email env w ev)"
  define wA where "wA = console LOG (AttemptingToRemove telegramId e) (emit (Query (SelectTelegramId e)) w1)"
  define es1 where "es1 = new_effects w w1"
  define esR where "esR = new_effects wA (removeUserFromGroup env wA telegramId)"
  have eq: "webhook env w req = (Response 200 OK, removeUserFromGroup env wA telegramId)"
    using webhook_revoking [OF acq rev r ne l] by (simp add: wA_def w1_def)
  have t1: "trace w1 = trace w @ es1"
    using resolve_email_extends [of env w ev] by (simp add: w1_def es1_def)
  have tA: "trace wA = trace w @ es1 @ [Query (SelectTelegramId e), Console LOG (AttemptingToRemove telegramId e)]"
    by (simp add: wA_def t1)
  have tR: "trace (removeUserFromGroup env wA telegramId) = trace wA @ esR"
    using removeUserFromGroup_new_effects [of env wA telegramId] by (simp add: esR_def)
  have new: "new_effects w (snd (webhook env w req)) =
      es1 @ [Query (SelectTelegramId e), Console LOG (AttemptingToRemove telegramId e)] @ esR"
    by (simp add: eq tR tA new_effects_def)
  have o1: "revoke_outcomes es1 = []"
    using resolve_email_outcomes [of w env ev] by (simp add: es1_def w1_def)
  have r1: "resolve_email env w ev = (Some e, w1)"
    using r by (simp add: w1_def prod_eq_iff)
  obtain es where es: "trace w1 = trace w @ es" "tg_calls es = []"
    using resolve_email_trace [OF r1] by blast
  have c1: "tg_calls es1 = []"
    using es t1 by simp
  show "fst (webhook env w req) = Response 200 OK" by (simp add: eq)
  show "revoke_invoked env w (snd (webhook env w req)) telegramId"
    by (simp add: revoke_invoked_def new c1 esR_def removeUserFromGroup_calls split: tg_result.splits)
  show "length (revoke_outcomes (new_effects w (snd (webhook env w req)))) = 1"
    by (simp add: new o1 esR_def removeUserFromGroup_one_outcome)
qed




text \<open>
  C4, as amended. A revoking event whose email resolves to a stored account, delivered
  twice (the second time to the state the first left): both deliveries are answered 200
  \<open>OK\<close>, the store is unchanged, both invoke the revoke of the same account, and each
  revoke has exactly one outcome; nothing is thrown. A ban that Telegram answers with
  \<open>USER_NOT_PARTICIPANT\<close> has the outcome \<open>not_a_member\<close>, logged as a warning, so the
  two outcomes need not be the same. The file with the dashboard.
\<close>

theorem redelivery:
  assumes acq: "acquire_event env req = Inr ev"
    and rev: "event_type ev \<in> set revoking_types"
    and r: "fst (resolve_email env w ev) = Some e" and ne: "e \<noteq> []"
    and l: "fst (getTelegramIdByEmail w e) = Inr (Some telegramId)"
  shows "fst (webhook env w req) = Response 200 OK \<and>
         fst (webhook env (snd (webhook env w req)) req) = Response 200 OK \<and>
         telegram_users (snd (webhook env (snd (webhook env w req)) req)) = telegram_users w \<and>
         revoke_invoked env w (snd (webhook env w req)) telegramId \<and>
         revoke_invoked env (snd (webhook env w req))
           (snd (webhook env (snd (webhook env w req)) req)) telegramId \<and>
         length (revoke_outcomes (new_effects w (snd (webhook env w req)))) = 1 \<and>
         length (revoke_outcomes (new_effects (snd (webhook env w req))
           (snd (webhook env (snd (webhook env w req)) req)))) = 1 \<and>
         (telegram env (trace w0) (banChatMember (TELEGRAM_GROUP_ID env) telegramId) = TgError d \<and>
          user_not_participant d \<longrightarrow>
            revoke_outcomes (new_effects w0 (removeUserFromGroup env w0 telegramId)) =
              [(WARN, not_a_member)])"
proof -
  define w' where "w' = snd (webhook env w req)"
  have same: "pool_up w' = pool_up w" "telegram_users w' = telegram_users w"
    by (simp_all add: w'_def webhook_frame)
  have r': "fst (resolve_email env w' ev) = Some e"
    using r resolve_email_fst [of env w' ev w] by simp
  have l': "fst (getTelegramIdByEmail w' e) = Inr (Some telegramId)"
    using l getTelegramIdByEmail_fst_cong [OF same] by simp
  note first = webhook_revoking_once [OF acq rev r ne l]
  note second = webhook_revoking_once [OF acq rev r' ne l']
  have "telegram_users (snd (webhook env w' req)) = telegram_users w"
    by (simp add: webhook_frame same)
  with first second show ?thesis
    by (simp add: w'_def [symmetric] removeUserFromGroup_outcome)
qed

lemma delivered_once_trace:
  "delivered_once =
     \<lparr>pool_up = True, telegram_users = Some [(555, ''a@b.com'')],
      trace = [Query (SelectTelegramId ''a@b.com''),
               Console LOG (AttemptingToRemove 555 ''a@b.com''),
               Telegram (banChatMember ''-1001'' 555),
               Telegram (unbanChatMember ''-1001'' 555),
               Console LOG (AttemptedToRemove 555)]\<rparr>"
  by (simp add: delivered_once_def example_defs webhook_def webhook_catch_def process_event_def
      resolve_email_def getTelegramIdByEmail_def revoking_types_def removeUserFromGroup_def
      api_call_def example_telegram_def console_def emit_def)

text \<open>
  C4 as stated fails: with a Telegram that answers the second ban \<open>USER_NOT_PARTICIPANT\<close>,
  the outcome of the first delivery is \<open>removed\<close> and of the second \<open>not_a_member\<close>.
\<close>

theorem redelivery_outcome_counterexample:
  "revoke_outcomes (new_effects linked_world delivered_once) = [(LOG, removed)] \<and>
   revoke_outcomes (new_effects delivered_once
      (snd (webhook example_env delivered_once payment_failed_request))) = [(WARN, not_a_member)]"
  by (simp add: delivered_once_trace new_effects_def)
    (simp add: linked_world_def example_defs webhook_def webhook_catch_def process_event_def
      resolve_email_def getTelegramIdByEmail_def revoking_types_def removeUserFromGroup_def
      api_call_def example_telegram_def console_def emit_def removeUserFromGroup_catch_def
      user_not_participant_def startsWith_def)


lemma example_resolve_email_fst:
  "fst (resolve_email example_env linked_world payment_failed_event) = Some ''a@b.com''"
  by (simp add: example_resolve_email)

lemma example_not_participant:
  "user_not_participant (Some ''Bad Request: USER_NOT_PARTICIPANT'')"
  by (simp add: user_not_participant_def startsWith_def)

lemma example_second_ban:
  "telegram example_env (trace delivered_once)
     (banChatMember (TELEGRAM_GROUP_ID example_env) 555) =
   TgError (Some ''Bad Request: USER_NOT_PARTICIPANT'')"
  by (simp add: delivered_once_trace example_env_def example_telegram_def)

theorem redelivery_witness:
  "acquire_event example_env payment_failed_request = Inr payment_failed_event \<and>
   event_type payment_failed_event \<in> set revoking_types \<and>
   fst (resolve_email example_env linked_world payment_failed_event) = Some ''a@b.com'' \<and>
   fst (getTelegramIdByEmail linked_world ''a@b.com'') = Inr (Some 555) \<and>
   fst (webhook example_env linked_world payment_failed_request) = Response 200 OK \<and>
   fst (webhook example_env delivered_once payment_failed_request) = Response 200 OK \<and>
   telegram_users (snd (webhook example_env delivered_once payment_failed_request)) =
     telegram_users linked_world \<and>
   revoke_invoked example_env linked_world delivered_once 555 \<and>
   revoke_invoked example_env delivered_once
     (snd (webhook example_env delivered_once payment_failed_request)) 555 \<and>
   telegram example_env (trace delivered_once)
     (banChatMember (TELEGRAM_GROUP_ID example_env) 555) =
     TgError (Some ''Bad Request: USER_NOT_PARTICIPANT'') \<and>
   user_not_participant (Some ''Bad Request: USER_NOT_PARTICIPANT'') \<and>
   revoke_outcomes (new_effects delivered_once
     (removeUserFromGroup example_env delivered_once 555)) = [(WARN, not_a_member)]"
  using redelivery [OF example_acquire_payment_failed example_types(1)
      example_resolve_email_fst _ example_lookup,
      of delivered_once "Some ''Bad Request: USER_NOT_PARTICIPANT''"]
    example_acquire_payment_failed example_types(1) example_resolve_email_fst example_lookup
    example_not_participant example_second_ban
  by (simp add: delivered_once_def [symmetric])

subsection \<open>C5: an account that is not in the group\<close>

text \<open>
  In the file with the dashboard an error whose description includes
  \<open>USER_NOT_PARTICIPANT\<close> is \<open>not_a_member\<close>, logged as a warning; every other error is
  \<open>failed\<close>, logged as an error; one ban and at most one unban are sent, never a second
  attempt.
\<close>

lemma removeUserFromGroup_classifies:
  "revoke_outcomes (new_effects w (removeUserFromGroup env w t)) =
     (case telegram env (trace w) (banChatMember (TELEGRAM_GROUP_ID env) t) of
        TgError d \<Rightarrow> [if user_not_participant d then (WARN, not_a_member) else (ERROR, failed)]
      | TgOk \<Rightarrow>
          (case telegram env (trace w @ [Telegram (banChatMember (TELEGRAM_GROUP_ID env) t)])
                  (unbanChatMember (TELEGRAM_GROUP_ID env) t) of
             TgError d \<Rightarrow> [if user_not_participant d then (WARN, not_a_member) else (ERROR, failed)]
           | TgOk \<Rightarrow> [(LOG, removed)])) \<and>
   tg_calls (new_effects w (removeUserFromGroup env w t)) =
     (case telegram env (trace w) (banChatMember (TELEGRAM_GROUP_ID env) t) of
        TgError d \<Rightarrow> [banChatMember (TELEGRAM_GROUP_ID env) t]
      | TgOk \<Rightarrow> [banChatMember (TELEGRAM_GROUP_ID env) t, unbanChatMember (TELEGRAM_GROUP_ID env) t]) \<and>
   severity WARN < severity ERROR"
  by (simp add: removeUserFromGroup_outcome removeUserFromGroup_calls)

text \<open>
  C5 at an account that is not in the group: \<open>removeUserFromGroup\<close> of \<open>app.js\<close> logs
  the answer \<open>USER_NOT_PARTICIPANT\<close> as a failure, at the severity of an error; the same
  function in the file with the dashboard logs it as \<open>not_a_member\<close>, as a warning.
\<close>

theorem removeUserFromGroup_app_not_participant:
  "telegram not_member_env (trace linked_world)
     (banChatMember (TELEGRAM_GROUP_ID not_member_env) 555) =
     TgError (Some ''Bad Request: USER_NOT_PARTICIPANT'') \<and>
   user_not_participant (Some ''Bad Request: USER_NOT_PARTICIPANT'') \<and>
   revoke_outcomes (new_effects linked_world
     (removeUserFromGroup_app not_member_env linked_world 555)) = [(ERROR, failed)] \<and>
   revoke_outcomes (new_effects linked_world
     (removeUserFromGroup not_member_env linked_world 555)) = [(WARN, not_a_member)]"
  by (simp add: removeUserFromGroup_app_outcome removeUserFromGroup_outcome example_not_participant
      not_member_env_def)

subsection \<open>C6: the first email of an account, and the second\<close>

lemma upsert_row_fresh:
  "telegramId \<notin> fst ` set rows \<Longrightarrow> upsert_row telegramId email rows = rows @ [(telegramId, email)]"
  by (induction rows) auto

lemma set_upsert_row:
  "set (upsert_row telegramId email rows) \<subseteq> insert (telegramId, email) (set rows)"
  by (induction rows) auto

lemma fst_set_upsert_row:
  "fst ` set (upsert_row telegramId email rows) = insert telegramId (fst ` set rows)"
  by (induction rows) auto

lemma getEmailByUser_snd:
  "snd (getEmailByUser w uid) = (if pool_up w then emit (Query (SelectEmail uid)) w else w)"
  by (simp add: getEmailByUser_def Let_def split: option.splits list.splits)

lemma getEmailByUser_unlinked:
  "pool_up w \<Longrightarrow> telegram_users w = Some rows \<Longrightarrow> uid \<notin> fst ` set rows \<Longrightarrow>
     fst (getEmailByUser w uid) = Inr None"
proof -
  assume "pool_up w" "telegram_users w = Some rows" "uid \<notin> fst ` set rows"
  moreover from this have "filter (\<lambda>r. fst r = uid) rows = []"
    by (auto simp add: filter_empty_conv)
  ultimately show ?thesis by (simp add: getEmailByUser_def Let_def)
qed

lemma getEmailByUser_linked:
  "pool_up w \<Longrightarrow> telegram_users w = Some (rows @ [(uid, e)]) \<Longrightarrow> uid \<notin> fst ` set rows \<Longrightarrow>
     e \<noteq> [] \<Longrightarrow> fst (getEmailByUser w uid) = Inr (Some e)"
proof -
  assume a: "pool_up w" "telegram_users w = Some (rows @ [(uid, e)])" "uid \<notin> fst ` set rows" "e \<noteq> []"
  then have "filter (\<lambda>r. fst r = uid) rows = []"
    by (auto simp add: filter_empty_conv)
  with a show ?thesis by (simp add: getEmailByUser_def Let_def)
qed

lemma includes_str_nonempty: "includes_str s [c] \<Longrightarrow> s \<noteq> []"
  by (cases s) simp_all

lemma includes_str_char: "includes_str s [c] = (c \<in> set s)"
  by (induction s) (auto simp add: startsWith_def)

text \<open>The text handler on a message that passes its tests, by what the store answers.\<close>

lemma on_text_email:
  assumes "from_id c = Some uid" "uid \<noteq> 0" "email_like (trim (message_text c))"
  shows "on_text w c =
     (case getEmailByUser w uid of
        (r, w1) \<Rightarrow>
          (case r of
             Inl err \<Rightarrow> (Inl err, w1)
           | Inr (Some existing) \<Rightarrow> (Inr (), reply (AlreadyLinked existing) w1)
           | Inr None \<Rightarrow>
               (case insertOrUpdateUser w1 uid (trim (message_text c)) of
                  (r', w2) \<Rightarrow>
                    (case r' of
                       Inl err \<Rightarrow> (Inl err, w2)
                     | Inr ok \<Rightarrow> (Inr (), reply (Linked (trim (message_text c))) w2)))))"
  using assms by (simp add: on_text_def email_like_def Let_def)

lemma on_text_not_email:
  assumes "\<not> email_like (trim (message_text c))"
  shows "telegram_users (snd (on_text w c)) = telegram_users w"
    and "pool_up (snd (on_text w c)) = pool_up w"
    and "queries (new_effects w (snd (on_text w c))) = []"
  using assms
  by (auto simp add: on_text_def email_like_def Let_def new_effects_def split: option.splits)

lemma on_text_no_user:
  assumes "from_id c = None \<or> from_id c = Some 0"
  shows "telegram_users (snd (on_text w c)) = telegram_users w"
    and "pool_up (snd (on_text w c)) = pool_up w"
  using assms
  by (auto simp add: on_text_def Let_def split: option.splits)

lemma on_text_first:
  assumes up: "pool_up w" and tab: "telegram_users w = Some rows"
    and c: "from_id c = Some uid" "uid \<noteq> 0" "email_like (trim (message_text c))"
    and unl: "uid \<notin> fst ` set rows"
    and free: "trim (message_text c) \<notin> snd ` set rows"
  shows "on_text w c =
     (Inr (), reply (Linked (trim (message_text c)))
        ((emit (Query (Upsert uid (trim (message_text c)))) (emit (Query (SelectEmail uid)) w))
           \<lparr>telegram_users := Some (rows @ [(uid, trim (message_text c))])\<rparr>))"
proof -
  have g: "getEmailByUser w uid = (Inr None, emit (Query (SelectEmail uid)) w)"
    using getEmailByUser_unlinked [OF up tab unl] getEmailByUser_snd [of w uid] up
    by (simp add: prod_eq_iff)
  have nex: "\<not> list_ex (\<lambda>r. fst r \<noteq> uid \<and> snd r = trim (message_text c)) rows"
    using free by (force simp add: list_ex_iff)
  have i: "insertOrUpdateUser (emit (Query (SelectEmail uid)) w) uid (trim (message_text c)) =
      (Inr True,
       (emit (Query (Upsert uid (trim (message_text c)))) (emit (Query (SelectEmail uid)) w))
         \<lparr>telegram_users := Some (rows @ [(uid, trim (message_text c))])\<rparr>)"
    using up tab nex upsert_row_fresh [OF unl]
    by (simp add: insertOrUpdateUser_def Let_def)
  show ?thesis
    by (simp add: on_text_email [OF c] g i)
qed

lemma on_text_again:
  assumes up: "pool_up w" and g: "fst (getEmailByUser w uid) = Inr (Some existing)"
    and c: "from_id c = Some uid" "uid \<noteq> 0" "email_like (trim (message_text c))"
  shows "on_text w c = (Inr (), reply (AlreadyLinked existing) (emit (Query (SelectEmail uid)) w))"
proof -
  have g: "getEmailByUser w uid = (Inr (Some existing), emit (Query (SelectEmail uid)) w)"
    using g getEmailByUser_snd [of w uid] up by (simp add: prod_eq_iff)
  show ?thesis
    by (simp add: on_text_email [OF c] g)
qed


text \<open>
  C6, as amended. The store is reachable and holds no row of the account and no row with
  the email sent. A first message whose trimmed text does not start with a slash and
  contains \<open>@\<close> and \<open>.\<close> adds exactly the row of the account with the trimmed text,
  and the reply confirms the link. A second such message of the same account leaves the
  rows as they are (one row of the account, with the first email) and the reply is the
  already-linked message with the first email.
\<close>

theorem first_and_second_email:
  assumes up: "pool_up w" and tab: "telegram_users w = Some rows"
    and unl: "uid \<notin> fst ` set rows" and uid: "uid \<noteq> 0"
    and c1: "from_id c1 = Some uid" "email_like (trim (message_text c1))"
    and free: "trim (message_text c1) \<notin> snd ` set rows"
    and c2: "from_id c2 = Some uid" "email_like (trim (message_text c2))"
  shows "fst (on_text w c1) = Inr () \<and>
         stored_rows (snd (on_text w c1)) = rows @ [(uid, trim (message_text c1))] \<and>
         replies (new_effects w (snd (on_text w c1))) = [Linked (trim (message_text c1))] \<and>
         fst (on_text (snd (on_text w c1)) c2) = Inr () \<and>
         stored_rows (snd (on_text (snd (on_text w c1)) c2)) =
           rows @ [(uid, trim (message_text c1))] \<and>
         replies (new_effects (snd (on_text w c1)) (snd (on_text (snd (on_text w c1)) c2))) =
           [AlreadyLinked (trim (message_text c1))] \<and>
         length (filter (\<lambda>r. fst r = uid) (stored_rows (snd (on_text (snd (on_text w c1)) c2)))) = 1"
proof -
  define e where "e = trim (message_text c1)"
  define w1 where "w1 = snd (on_text w c1)"
  have first: "on_text w c1 =
     (Inr (), reply (Linked e)
        ((emit (Query (Upsert uid e)) (emit (Query (SelectEmail uid)) w))
           \<lparr>telegram_users := Some (rows @ [(uid, e)])\<rparr>))"
    using on_text_first [OF up tab c1(1) uid c1(2) unl free] by (simp add: e_def)
  have up1: "pool_up w1" and tab1: "telegram_users w1 = Some (rows @ [(uid, e)])"
    using up by (simp_all add: w1_def first)
  have ne: "e \<noteq> []"
    using c1(2) includes_str_nonempty [of e "CHR ''@''"] by (simp add: email_like_def e_def)
  have g1: "fst (getEmailByUser w1 uid) = Inr (Some e)"
    using getEmailByUser_linked [OF up1 tab1 unl ne] .
  have second: "on_text w1 c2 = (Inr (), reply (AlreadyLinked e) (emit (Query (SelectEmail uid)) w1))"
    using on_text_again [OF up1 g1 c2(1) uid c2(2)] .
  have none: "filter (\<lambda>r. fst r = uid) rows = []"
    using unl by (auto simp add: filter_empty_conv)
  show ?thesis
    unfolding w1_def [symmetric] e_def [symmetric]
    by (simp add: second stored_rows_def tab1 new_effects_def none)
      (simp add: first w1_def stored_rows_def new_effects_def)
qed

lemma example_trim: "trim (message_text first_email_ctx) = ''a@b.com''"
  "trim (message_text new_email_ctx) = ''new@x.org''"
  "trim (message_text same_email_ctx) = ''a@b.com''"
  "trim (message_text slash_ctx) = ''/a@b.com''"
  by (simp_all add: first_email_ctx_def new_email_ctx_def same_email_ctx_def slash_ctx_def
      trim_def is_whitespace_def)

lemma example_email_like: "email_like ''a@b.com''" "email_like ''new@x.org''"
  "\<not> email_like ''/a@b.com''"
  by (simp_all add: email_like_def startsWith_def)

lemma example_fresh_initDb:
  "snd (initDb fresh_world) =
     \<lparr>pool_up = True, telegram_users = Some [], trace = [Query CreateTable]\<rparr>"
  by (simp add: initDb_def fresh_world_def emit_def)

theorem first_and_second_email_witness:
  "pool_up (snd (initDb fresh_world)) \<and>
   telegram_users (snd (initDb fresh_world)) = Some [] \<and>
   from_id first_email_ctx = Some 555 \<and> email_like (trim (message_text first_email_ctx)) \<and>
   from_id new_email_ctx = Some 555 \<and> email_like (trim (message_text new_email_ctx)) \<and>
   stored_rows (snd (on_text (snd (initDb fresh_world)) first_email_ctx)) = [(555, ''a@b.com'')] \<and>
   replies (new_effects (snd (initDb fresh_world))
     (snd (on_text (snd (initDb fresh_world)) first_email_ctx))) = [Linked ''a@b.com''] \<and>
   stored_rows (snd (on_text (snd (on_text (snd (initDb fresh_world)) first_email_ctx))
     new_email_ctx)) = [(555, ''a@b.com'')] \<and>
   replies (new_effects (snd (on_text (snd (initDb fresh_world)) first_email_ctx))
     (snd (on_text (snd (on_text (snd (initDb fresh_world)) first_email_ctx)) new_email_ctx))) =
     [AlreadyLinked ''a@b.com'']"
  using first_and_second_email [of "snd (initDb fresh_world)" "[]" 555 first_email_ctx new_email_ctx]
    example_trim example_email_like
  by (simp add: example_fresh_initDb) (simp add: first_email_ctx_def new_email_ctx_def)

text \<open>
  C6 as stated fails: account 777 has no link and sends the email that account 555 holds;
  the statement is refused with a unique violation, no row is added and no reply is sent.
\<close>

theorem email_taken_counterexample:
  "777 \<notin> fst ` set (stored_rows linked_world) \<and>
   from_id same_email_ctx = Some 777 \<and>
   email_like (trim (message_text same_email_ctx)) \<and>
   fst (on_text linked_world same_email_ctx) = Inl UniqueViolation \<and>
   stored_rows (snd (on_text linked_world same_email_ctx)) = [(555, ''a@b.com'')] \<and>
   replies (new_effects linked_world (snd (on_text linked_world same_email_ctx))) = []"
proof -
  have c: "from_id same_email_ctx = Some 777" by (simp add: same_email_ctx_def)
  have e: "email_like (trim (message_text same_email_ctx))"
    by (simp add: example_trim example_email_like)
  show ?thesis
    using c e
    by (simp add: on_text_email [OF c _ e] example_trim)
      (simp add: linked_world_def stored_rows_def getEmailByUser_def insertOrUpdateUser_def
        emit_def new_effects_def example_trim Let_def)
qed

subsection \<open>C7: a new email of a linked account\<close>

lemma insertOrUpdateUser_rows:
  "stored_rows (snd (insertOrUpdateUser w uid e)) = stored_rows w \<or>
   stored_rows (snd (insertOrUpdateUser w uid e)) = upsert_row uid e (stored_rows w)"
  by (simp add: insertOrUpdateUser_def Let_def stored_rows_def split: option.splits)

lemma stored_rows_emit [simp]: "stored_rows (emit e w) = stored_rows w"
  by (simp add: stored_rows_def)

lemma stored_rows_reply [simp]: "stored_rows (reply m w) = stored_rows w"
  by (simp add: stored_rows_def)

lemma stored_rows_console [simp]: "stored_rows (console l m w) = stored_rows w"
  by (simp add: stored_rows_def)

lemma stored_rows_getEmailByUser [simp]:
  "stored_rows (snd (getEmailByUser w uid)) = stored_rows w"
  by (simp add: getEmailByUser_snd)

text \<open>The rows after a message: as before, or with the row of the message upserted.\<close>

lemma on_text_rows:
  "stored_rows (snd (on_text w c)) = stored_rows w \<or>
   (\<exists>uid. from_id c = Some uid \<and> uid \<noteq> 0 \<and> email_like (trim (message_text c)) \<and>
      stored_rows (snd (on_text w c)) = upsert_row uid (trim (message_text c)) (stored_rows w))"
proof (cases "\<exists>uid. from_id c = Some uid \<and> uid \<noteq> 0 \<and> email_like (trim (message_text c))")
  case False
  then have "telegram_users (snd (on_text w c)) = telegram_users w"
    using on_text_not_email(1) [of c w] on_text_no_user(1) [of c w]
    by (cases "from_id c") auto
  then show ?thesis by (simp add: stored_rows_def)
next
  case True
  then obtain uid where c: "from_id c = Some uid" "uid \<noteq> 0" "email_like (trim (message_text c))"
    by blast
  obtain r w1 where g: "getEmailByUser w uid = (r, w1)" by (cases "getEmailByUser w uid")
  have w1: "stored_rows w1 = stored_rows w"
    using stored_rows_getEmailByUser [of w uid] g by simp
  obtain r' w2 where i: "insertOrUpdateUser w1 uid (trim (message_text c)) = (r', w2)"
    by (cases "insertOrUpdateUser w1 uid (trim (message_text c))")
  have w2: "stored_rows w2 = stored_rows w \<or>
      stored_rows w2 = upsert_row uid (trim (message_text c)) (stored_rows w)"
    using insertOrUpdateUser_rows [of w1 uid "trim (message_text c)"] i w1 by simp
  show ?thesis
    using c w1 w2
    by (auto simp add: on_text_email [OF c] g i split: sum.splits option.splits)
qed

lemma on_text_ids:
  "fst ` set (stored_rows w) \<subseteq> fst ` set (stored_rows (snd (on_text w c)))"
  using on_text_rows [of w c] by (force simp add: fst_set_upsert_row)

lemma webhook_app_frame:
  "telegram_users (snd (webhook_app env w req)) = telegram_users w"
proof (cases "acquire_event env req")
  case (Inl err)
  then show ?thesis by (simp add: webhook_app_def)
next
  case (Inr ev)
  obtain em w1 where r: "resolve_email env w ev = (em, w1)" by (cases "resolve_email env w ev")
  have w1: "telegram_users w1 = telegram_users w"
    using resolve_email_trace [OF r] by auto
  show ?thesis
  proof (cases em)
    case None
    with w1 show ?thesis by (simp add: webhook_app_acquired [OF Inr r])
  next
    case (Some e)
    obtain r2 w2 where l: "getTelegramIdByEmail w1 e = (r2, w2)"
      by (cases "getTelegramIdByEmail w1 e")
    have w2: "telegram_users w2 = telegram_users w"
      using getTelegramIdByEmail_trace [OF l] w1 by auto
    have f: "telegram_users (removeUserFromGroup_app env w0 t) = telegram_users w0" for w0 t
      by (simp add: removeUserFromGroup_app_def api_call_def split: tg_result.splits)
    show ?thesis
      using w1 w2 by (simp add: webhook_app_acquired [OF Inr r] Some l f split: sum.splits option.splits)
  qed
qed

lemma dashboard_frame:
  "telegram_users (snd (dashboard env w q)) = telegram_users w"
  by (simp add: dashboard_def select_all_order_by_def Let_def split: sum.splits option.splits)

lemma initDb_ids:
  "fst ` set (stored_rows w) \<subseteq> fst ` set (stored_rows (snd (initDb w)))"
  by (simp add: initDb_def stored_rows_def split: option.splits)

lemma map_of_upsert_row: "map_of (upsert_row uid e rows) uid = Some e"
  by (induction rows) auto

text \<open>The store itself replaces the email of an account when the upsert is called.\<close>

lemma insertOrUpdateUser_replaces:
  assumes "pool_up w" "telegram_users w = Some rows" "new \<notin> snd ` set rows"
  shows "fst (insertOrUpdateUser w uid new) = Inr True"
    and "map_of (stored_rows (snd (insertOrUpdateUser w uid new))) uid = Some new"
proof -
  have "\<not> list_ex (\<lambda>r. fst r \<noteq> uid \<and> snd r = new) rows"
    using assms(3) by (force simp add: list_ex_iff)
  with assms show "fst (insertOrUpdateUser w uid new) = Inr True"
    and "map_of (stored_rows (snd (insertOrUpdateUser w uid new))) uid = Some new"
    by (simp_all add: insertOrUpdateUser_def Let_def stored_rows_def map_of_upsert_row)
qed

text \<open>
  C7, as amended. When the store returns an email for the account, a message that passes
  the tests of the handler is answered with the already-linked message and the stored
  email; the only statement sent is the lookup, and the table is unchanged: the email is
  not replaced. No handler removes a link: the text handler and \<open>initDb\<close> keep every
  account that has a row, and the two webhooks and the dashboard leave the table as it
  is.
\<close>

theorem linked_email_kept:
  assumes g: "fst (getEmailByUser w uid) = Inr (Some existing)"
    and c: "from_id c = Some uid" "uid \<noteq> 0" "email_like (trim (message_text c))"
  shows "fst (on_text w c) = Inr () \<and>
         telegram_users (snd (on_text w c)) = telegram_users w \<and>
         replies (new_effects w (snd (on_text w c))) = [AlreadyLinked existing] \<and>
         queries (new_effects w (snd (on_text w c))) = [SelectEmail uid] \<and>
         fst ` set (stored_rows w0) \<subseteq> fst ` set (stored_rows (snd (on_text w0 c0))) \<and>
         fst ` set (stored_rows w0) \<subseteq> fst ` set (stored_rows (snd (initDb w0))) \<and>
         telegram_users (snd (webhook env w0 req)) = telegram_users w0 \<and>
         telegram_users (snd (webhook_app env w0 req)) = telegram_users w0 \<and>
         telegram_users (snd (dashboard env w0 q)) = telegram_users w0"
proof -
  have up: "pool_up w"
    using g by (simp add: getEmailByUser_def split: if_splits)
  have "on_text w c = (Inr (), reply (AlreadyLinked existing) (emit (Query (SelectEmail uid)) w))"
    using on_text_again [OF up g c] .
  then show ?thesis
    by (simp add: new_effects_def on_text_ids initDb_ids webhook_frame webhook_app_frame
        dashboard_frame)
qed

lemma example_linked:
  "fst (getEmailByUser linked_world 555) = Inr (Some ''a@b.com'')"
  by (simp add: getEmailByUser_def linked_world_def)

theorem linked_email_kept_witness:
  "fst (getEmailByUser linked_world 555) = Inr (Some ''a@b.com'') \<and>
   from_id new_email_ctx = Some 555 \<and>
   email_like (trim (message_text new_email_ctx)) \<and>
   fst (on_text linked_world new_email_ctx) = Inr () \<and>
   telegram_users (snd (on_text linked_world new_email_ctx)) = Some [(555, ''a@b.com'')] \<and>
   replies (new_effects linked_world (snd (on_text linked_world new_email_ctx))) =
     [AlreadyLinked ''a@b.com''] \<and>
   queries (new_effects linked_world (snd (on_text linked_world new_email_ctx))) =
     [SelectEmail 555]"
proof -
  have c: "from_id new_email_ctx = Some 555" by (simp add: new_email_ctx_def)
  have e: "email_like (trim (message_text new_email_ctx))"
    by (simp add: example_trim example_email_like)
  have t: "telegram_users linked_world = Some [(555, ''a@b.com'')]"
    by (simp add: linked_world_def)
  show ?thesis
    using linked_email_kept [OF example_linked c _ e] example_linked c e t by simp
qed

text \<open>
  C7 as stated fails: account 555, linked to \<open>a@b.com\<close>, sends \<open>new@x.org\<close>, and the
  stored email is still \<open>a@b.com\<close>.
\<close>

theorem email_not_replaced_counterexample:
  "fst (getEmailByUser linked_world 555) = Inr (Some ''a@b.com'') \<and>
   from_id new_email_ctx = Some 555 \<and>
   trim (message_text new_email_ctx) = ''new@x.org'' \<and>
   email_like ''new@x.org'' \<and>
   stored_rows (snd (on_text linked_world new_email_ctx)) = [(555, ''a@b.com'')]"
proof -
  have c: "from_id new_email_ctx = Some 555" by (simp add: new_email_ctx_def)
  have e: "email_like (trim (message_text new_email_ctx))"
    by (simp add: example_trim example_email_like)
  have "pool_up linked_world" by (simp add: linked_world_def)
  from on_text_again [OF this example_linked c _ e]
  show ?thesis
    using c by (simp add: example_linked example_trim example_email_like)
      (simp add: linked_world_def stored_rows_def)
qed

subsection \<open>C10: what the text handler stores\<close>

lemma not_whitespace_slash: "\<not> is_whitespace CHR ''/''"
  by (simp add: is_whitespace_def)

lemma trim_keeps_slash:
  assumes "startsWith s ''/''"
  shows "startsWith (trim s) ''/''"
proof -
  from assms obtain rest where s: "s = CHR ''/'' # rest"
    by (cases s) (auto simp add: startsWith_def)
  have "dropWhile is_whitespace (rev rest @ [CHR ''/'']) =
        dropWhile is_whitespace (rev rest) @ [CHR ''/'']
        \<or> dropWhile is_whitespace (rev rest @ [CHR ''/'']) = [CHR ''/'']"
    using not_whitespace_slash by (simp add: dropWhile_append)
  then show ?thesis
    using not_whitespace_slash by (auto simp add: s trim_def startsWith_def)
qed

text \<open>What \<open>trim\<close> returns: the text without a blank prefix and a blank suffix.\<close>

lemma trim_spec:
  "\<exists>pre post. s = pre @ trim s @ post \<and>
     list_all is_whitespace pre \<and> list_all is_whitespace post \<and>
     (trim s = [] \<or> (\<not> is_whitespace (hd (trim s)) \<and> \<not> is_whitespace (last (trim s))))"
proof -
  define t where "t = dropWhile is_whitespace s"
  define u where "u = dropWhile is_whitespace (rev t)"
  have s: "s = takeWhile is_whitespace s @ t"
    by (simp add: t_def)
  have t: "t = rev u @ rev (takeWhile is_whitespace (rev t))"
    by (metis rev_append rev_rev_ident takeWhile_dropWhile_id u_def)
  have tr: "trim s = rev u" by (simp add: trim_def t_def u_def)
  have pre: "list_all is_whitespace (takeWhile is_whitespace s)"
    by (simp add: list_all_iff) (meson set_takeWhileD)
  have post: "list_all is_whitespace (rev (takeWhile is_whitespace (rev t)))"
    by (simp add: list_all_iff) (meson set_takeWhileD)
  have ends: "rev u = [] \<or> (\<not> is_whitespace (hd (rev u)) \<and> \<not> is_whitespace (last (rev u)))"
  proof (cases "u = []")
    case True
    then show ?thesis by simp
  next
    case False
    then have l: "\<not> is_whitespace (hd u)"
      unfolding u_def by (rule hd_dropWhile)
    have "t \<noteq> []" using False u_def by auto
    then have "\<not> is_whitespace (hd t)"
      unfolding t_def by (rule hd_dropWhile)
    moreover have "hd t = hd (rev u)"
      using t False by (metis hd_append2 rev_is_Nil_conv)
    ultimately show ?thesis
      using l False by (simp add: last_rev)
  qed
  have "s = takeWhile is_whitespace s @ trim s @ rev (takeWhile is_whitespace (rev t))"
    using s t tr by simp
  with pre post ends tr show ?thesis by metis
qed

lemma on_text_slash:
  "startsWith (trim (message_text c)) ''/'' \<Longrightarrow>
     telegram_users (snd (on_text w c)) = telegram_users w"
  using on_text_not_email(1) [of c w] by (simp add: email_like_def)

lemma stored_from_upsert:
  assumes "from_id c = Some uid" "email_like (trim (message_text c))"
    and "\<forall>r\<in>set rows. \<exists>c'\<in>S. stored_from c' r"
  shows "\<forall>r\<in>set (upsert_row uid (trim (message_text c)) rows). \<exists>c'\<in>insert c S. stored_from c' r"
proof
  fix r assume "r \<in> set (upsert_row uid (trim (message_text c)) rows)"
  then have "r = (uid, trim (message_text c)) \<or> r \<in> set rows"
    using set_upsert_row [of uid "trim (message_text c)" rows] by auto
  then show "\<exists>c'\<in>insert c S. stored_from c' r"
  proof
    assume "r = (uid, trim (message_text c))"
    then have "stored_from c r"
      using assms(1,2) by (simp add: stored_from_def email_like_def)
    then show ?thesis by blast
  next
    assume "r \<in> set rows"
    with assms(3) show ?thesis by blast
  qed
qed

lemma on_text_stored_from:
  assumes "\<forall>r\<in>set (stored_rows w). \<exists>c'\<in>S. stored_from c' r"
  shows "\<forall>r\<in>set (stored_rows (snd (on_text w c))). \<exists>c'\<in>insert c S. stored_from c' r"
  using on_text_rows [of w c]
proof
  assume "stored_rows (snd (on_text w c)) = stored_rows w"
  with assms show ?thesis by auto
next
  assume "\<exists>uid. from_id c = Some uid \<and> uid \<noteq> 0 \<and> email_like (trim (message_text c)) \<and>
      stored_rows (snd (on_text w c)) = upsert_row uid (trim (message_text c)) (stored_rows w)"
  then obtain uid where u: "from_id c = Some uid" "email_like (trim (message_text c))"
    "stored_rows (snd (on_text w c)) = upsert_row uid (trim (message_text c)) (stored_rows w)"
    by blast
  show ?thesis
    unfolding u(3) using stored_from_upsert [OF u(1,2) assms] .
qed

lemma run_texts_stored_from:
  "\<forall>r\<in>set (stored_rows w). \<exists>c'\<in>S. stored_from c' r \<Longrightarrow>
   \<forall>r\<in>set (stored_rows (run_texts w cs)). \<exists>c'\<in>S \<union> set cs. stored_from c' r"
proof (induction cs arbitrary: w S)
  case Nil
  then show ?case by simp
next
  case (Cons c cs)
  have "\<forall>r\<in>set (stored_rows (snd (on_text w c))). \<exists>c'\<in>insert c S. stored_from c' r"
    using on_text_stored_from [OF Cons.prems] .
  from Cons.IH [OF this] show ?case by simp
qed

text \<open>
  C10. Starting from a store with no rows, after any sequence of text messages every
  stored row comes from one of the messages: its account is the sender, and its email is
  the trimmed text of the message, contains \<open>@\<close> and \<open>.\<close>, and does not start with a
  slash. A message that starts with a slash, before or after trimming, leaves the table
  as it is in any state.
\<close>

theorem stored_emails_invariant:
  "stored_rows w = [] \<Longrightarrow>
     (\<forall>r\<in>set (stored_rows (run_texts w cs)). \<exists>c\<in>set cs. stored_from c r) \<and>
     (startsWith (message_text c0) ''/'' \<or> startsWith (trim (message_text c0)) ''/'' \<longrightarrow>
        telegram_users (snd (on_text w0 c0)) = telegram_users w0)"
proof -
  assume "stored_rows w = []"
  then have "\<forall>r\<in>set (stored_rows w). \<exists>c'\<in>{}. stored_from c' r" by simp
  from run_texts_stored_from [OF this, of cs]
  have "\<forall>r\<in>set (stored_rows (run_texts w cs)). \<exists>c\<in>set cs. stored_from c r" by simp
  moreover have "startsWith (message_text c0) ''/'' \<or> startsWith (trim (message_text c0)) ''/'' \<longrightarrow>
        telegram_users (snd (on_text w0 c0)) = telegram_users w0"
    using trim_keeps_slash [of "message_text c0"] on_text_slash [of c0 w0] by blast
  ultimately show ?thesis by blast
qed


lemma example_run_texts:
  "stored_rows (run_texts (snd (initDb fresh_world))
     [first_email_ctx, slash_ctx, new_email_ctx, same_email_ctx]) = [(555, ''a@b.com'')]"
  by (simp add: example_fresh_initDb on_text_def Let_def example_trim startsWith_def
      first_email_ctx_def [THEN arg_cong [of _ _ from_id]]
      slash_ctx_def [THEN arg_cong [of _ _ from_id]]
      new_email_ctx_def [THEN arg_cong [of _ _ from_id]]
      same_email_ctx_def [THEN arg_cong [of _ _ from_id]]
      getEmailByUser_def insertOrUpdateUser_def emit_def reply_def stored_rows_def)

theorem stored_emails_invariant_witness:
  "stored_rows (snd (initDb fresh_world)) = [] \<and>
   stored_rows (run_texts (snd (initDb fresh_world))
     [first_email_ctx, slash_ctx, new_email_ctx, same_email_ctx]) = [(555, ''a@b.com'')] \<and>
   (\<exists>c\<in>set [first_email_ctx, slash_ctx, new_email_ctx, same_email_ctx].
      stored_from c (555, ''a@b.com'')) \<and>
   startsWith (message_text slash_ctx) ''/'' \<and>
   telegram_users (snd (on_text linked_world slash_ctx)) = telegram_users linked_world"
proof -
  have e: "stored_rows (snd (initDb fresh_world)) = []"
    by (simp add: example_fresh_initDb stored_rows_def)
  have s: "startsWith (message_text slash_ctx) ''/''"
    by (simp add: slash_ctx_def startsWith_def)
  show ?thesis
    using stored_emails_invariant [OF e,
        of "[first_email_ctx, slash_ctx, new_email_ctx, same_email_ctx]" slash_ctx linked_world]
      e s example_run_texts
    by simp
qed

subsection \<open>C8 and C9: the dashboard\<close>

text \<open>
  The table that \<open>initDb\<close> creates has the columns \<open>telegram_id\<close> and \<open>email\<close>, and
  \<open>insertOrUpdateUser\<close> writes these two; the dashboard orders by \<open>joined_at\<close>.
\<close>

lemma order_by_defined:
  "(\<exists>rs. order_by col ord rows = Inr rs) \<longleftrightarrow> col \<in> set telegram_users_columns"
  by (auto simp add: order_by_def telegram_users_columns_def)

lemma order_by_joined_at:
  "order_by ''joined_at'' ord rows = Inl (UndefinedColumn ''joined_at'')"
  by (simp add: order_by_def)

lemma select_all_order_by_joined_at:
  "\<exists>err. fst (select_all_order_by w ''joined_at'' ord) = Inl err"
  by (simp add: select_all_order_by_def Let_def order_by_joined_at split: option.splits)

text \<open>The gate of the dashboard: 403 exactly when the tokens are not strictly equal.\<close>

lemma dashboard_forbidden_iff:
  "fst (dashboard env w q) = Response 403 Forbidden_Invalid_Token \<longleftrightarrow>
     \<not> strict_eq (token q) (DASHBOARD_ACCESS_TOKEN env)"
  by (simp add: dashboard_def Let_def split: prod.splits sum.splits)

lemma strict_eq_iff:
  "strict_eq q v \<longleftrightarrow> (q = Absent \<and> v = None) \<or> (\<exists>s. q = QString s \<and> v = Some s)"
  by (cases "(q, v)" rule: strict_eq.cases) auto

text \<open>Past the gate, the listing is never served: the statement is always refused.\<close>

lemma dashboard_response:
  "fst (dashboard env w q) =
     (if strict_eq (token q) (DASHBOARD_ACCESS_TOKEN env)
      then Response 500 Error_loading_dashboard
      else Response 403 Forbidden_Invalid_Token)"
proof -
  obtain r w1 where s: "select_all_order_by w ''joined_at''
      (if order q = QString ''desc'' then DESC else ASC) = (r, w1)"
    by (cases "select_all_order_by w ''joined_at'' (if order q = QString ''desc'' then DESC else ASC)")
  obtain err where "r = Inl err"
    using select_all_order_by_joined_at [of w "if order q = QString ''desc'' then DESC else ASC"] s
    by auto
  with s show ?thesis
    by (simp add: dashboard_def)
qed

lemma example_first_linked:
  "stored_rows first_linked_world = [(555, ''a@b.com'')]"
  by (simp add: first_linked_world_def example_fresh_initDb on_text_def Let_def example_trim
      startsWith_def first_email_ctx_def [THEN arg_cong [of _ _ from_id]]
      getEmailByUser_def insertOrUpdateUser_def emit_def reply_def stored_rows_def)

text \<open>
  C8 at the store that \<open>initDb\<close> and one linking message produce: the row has no
  timestamp, the table has no column \<open>joined_at\<close>, and the request with the configured
  token is answered 500 \<open>Error loading dashboard\<close>, not with the listing.
\<close>

theorem dashboard_listing_fails:
  "stored_rows first_linked_world = [(555, ''a@b.com'')] \<and>
   ''joined_at'' \<notin> set telegram_users_columns \<and>
   strict_eq (token token_query) (DASHBOARD_ACCESS_TOKEN example_env) \<and>
   fst (dashboard example_env first_linked_world token_query) =
     Response 500 Error_loading_dashboard"
  by (simp add: example_first_linked dashboard_response telegram_users_columns_def
      token_query_def example_env_def)

text \<open>
  C9 with no token configured and none sent: the gate lets the request pass (the answer
  is not 403), and the answer is 500 \<open>Error loading dashboard\<close>, not the listing.
\<close>

theorem dashboard_no_token_passes_gate:
  "strict_eq (token no_token_query) (DASHBOARD_ACCESS_TOKEN no_token_env) \<and>
   fst (dashboard no_token_env first_linked_world no_token_query) \<noteq>
     Response 403 Forbidden_Invalid_Token \<and>
   fst (dashboard no_token_env first_linked_world no_token_query) =
     Response 500 Error_loading_dashboard"
  by (simp add: dashboard_response no_token_query_def no_token_env_def)

end
